theory Spec2Isabelle
  imports Main
begin

section \<open>Strings\<close>

text \<open>
  A JavaScript string is modelled by the bytes of its UTF-8 encoding, one \<open>char\<close> per
  byte. A code point outside ASCII is therefore a sequence of two to four bytes, written
  \<open>CHR 0x..\<close> below.
\<close>

subsection \<open>String.prototype.trim\<close>

text \<open>
  The code points that \<open>trim\<close> removes: the WhiteSpace and LineTerminator productions of
  ECMAScript (TAB, LF, VT, FF, CR, SP, NBSP, the Unicode space separators, LS, PS and the
  byte order mark), each as its UTF-8 byte sequence.
\<close>

definition whiteSpace :: "string list" where
  "whiteSpace =
     [[CHR 0x09], [CHR 0x0A], [CHR 0x0B], [CHR 0x0C], [CHR 0x0D], [CHR 0x20],
      [CHR 0xC2, CHR 0xA0],
      [CHR 0xE1, CHR 0x9A, CHR 0x80],
      [CHR 0xE2, CHR 0x80, CHR 0x80], [CHR 0xE2, CHR 0x80, CHR 0x81],
      [CHR 0xE2, CHR 0x80, CHR 0x82], [CHR 0xE2, CHR 0x80, CHR 0x83],
      [CHR 0xE2, CHR 0x80, CHR 0x84], [CHR 0xE2, CHR 0x80, CHR 0x85],
      [CHR 0xE2, CHR 0x80, CHR 0x86], [CHR 0xE2, CHR 0x80, CHR 0x87],
      [CHR 0xE2, CHR 0x80, CHR 0x88], [CHR 0xE2, CHR 0x80, CHR 0x89],
      [CHR 0xE2, CHR 0x80, CHR 0x8A],
      [CHR 0xE2, CHR 0x80, CHR 0xA8], [CHR 0xE2, CHR 0x80, CHR 0xA9],
      [CHR 0xE2, CHR 0x80, CHR 0xAF],
      [CHR 0xE2, CHR 0x81, CHR 0x9F],
      [CHR 0xE3, CHR 0x80, CHR 0x80],
      [CHR 0xEF, CHR 0xBB, CHR 0xBF]]"

text \<open>
  \<open>dropOne ws s\<close> removes one leading occurrence of a sequence of \<open>ws\<close> from \<open>s\<close>, if
  \<open>s\<close> starts with one.
\<close>

fun dropOne :: "string list \<Rightarrow> string \<Rightarrow> string option" where
  "dropOne [] s = None"
| "dropOne (w # ws) s =
     (if w = [] then dropOne ws s
      else if take (length w) s = w then Some (drop (length w) s)
      else dropOne ws s)"

lemma dropOne_shorter: "dropOne ws s = Some r \<Longrightarrow> length r < length s"
proof (induction ws)
  case Nil
  then show ?case by simp
next
  case (Cons w ws)
  show ?case
  proof (cases "w \<noteq> [] \<and> take (length w) s = w")
    case True
    then have "length (take (length w) s) = length w" by simp
    then have "length w \<le> length s" by simp
    moreover from True have "0 < length w" by simp
    moreover from True have "0 < length s" by (cases s) auto
    moreover from True Cons.prems have "r = drop (length w) s" by simp
    ultimately show ?thesis by simp
  next
    case False
    with Cons show ?thesis by (auto split: if_splits)
  qed
qed

function dropLeading :: "string list \<Rightarrow> string \<Rightarrow> string" where
  "dropLeading ws s = (case dropOne ws s of None \<Rightarrow> s | Some r \<Rightarrow> dropLeading ws r)"
  by pat_completeness auto
termination
  by (relation "measure (\<lambda>(ws, s). length s)") (auto simp: dropOne_shorter)

definition trimStart :: "string \<Rightarrow> string" where
  "trimStart s = dropLeading whiteSpace s"

definition trimEnd :: "string \<Rightarrow> string" where
  "trimEnd s = rev (dropLeading (map rev whiteSpace) (rev s))"

definition trim :: "string \<Rightarrow> string" where
  "trim s = trimEnd (trimStart s)"

subsection \<open>Number to string\<close>

definition digit :: "nat \<Rightarrow> char" where
  "digit n = char_of (48 + n)"

fun decimal :: "nat \<Rightarrow> string" where
  "decimal n = (if n < 10 then [digit n] else decimal (n div 10) @ [digit (n mod 10)])"

subsection \<open>Array.prototype.join\<close>

fun join :: "string \<Rightarrow> string list \<Rightarrow> string" where
  "join sep [] = []"
| "join sep [x] = x"
| "join sep (x # y # ys) = x @ sep @ join sep (y # ys)"

subsection \<open>escapeHtml\<close>

text \<open>
  \<open>escapeHtml\<close> (script.js, lines 300-304) assigns the text to a detached element's
  \<open>textContent\<close> and reads back \<open>innerHTML\<close>: the HTML serialisation of a text node, which
  replaces \<open>&\<close>, \<open><\<close>, \<open>>\<close> and the no-break space (bytes C2 A0) by entities.
\<close>

fun escapeHtml :: "string \<Rightarrow> string" where
  "escapeHtml [] = []"
| "escapeHtml (c # cs) =
     (if c = CHR ''&'' then ''&amp;'' @ escapeHtml cs
      else if c = CHR ''<'' then ''&lt;'' @ escapeHtml cs
      else if c = CHR ''>'' then ''&gt;'' @ escapeHtml cs
      else if c = CHR 0xC2 then
        (case cs of
           [] \<Rightarrow> [c]
         | d # r \<Rightarrow> if d = CHR 0xA0 then ''&nbsp;'' @ escapeHtml r else c # escapeHtml cs)
      else c # escapeHtml cs)"

section \<open>URLSearchParams\<close>

text \<open>
  \<open>URLSearchParams.toString\<close> is the application/x-www-form-urlencoded serialiser of the
  URL standard: every byte of a name or value is kept when it is an ASCII letter or digit
  or one of \<open>* - . _\<close>, a space becomes \<open>+\<close>, and any other byte becomes \<open>%\<close> and two
  upper-case hexadecimal digits; name and value are joined by \<open>=\<close> and the pairs by \<open>&\<close>.
\<close>

definition hexdigit :: "nat \<Rightarrow> char" where
  "hexdigit n = ''0123456789ABCDEF'' ! (n mod 16)"

definition unreserved :: "char \<Rightarrow> bool" where
  "unreserved c =
     (let n = (of_char c :: nat) in
      (48 \<le> n \<and> n \<le> 57) \<or> (65 \<le> n \<and> n \<le> 90) \<or> (97 \<le> n \<and> n \<le> 122) \<or>
      c = CHR ''*'' \<or> c = CHR ''-'' \<or> c = CHR ''.'' \<or> c = CHR ''_'')"

definition encodeByte :: "char \<Rightarrow> string" where
  "encodeByte c =
     (if c = CHR '' '' then ''+''
      else if unreserved c then [c]
      else [CHR ''%'', hexdigit (of_char c div 16), hexdigit (of_char c mod 16)])"

definition urlencode :: "string \<Rightarrow> string" where
  "urlencode s = concat (map encodeByte s)"

definition encodePair :: "string \<times> string \<Rightarrow> string" where
  "encodePair p = urlencode (fst p) @ ''='' @ urlencode (snd p)"

definition toString :: "(string \<times> string) list \<Rightarrow> string" where
  "toString ps = join ''&'' (map encodePair ps)"

text \<open>
  Reading a query string back, as the receiving side does (the parser of the same
  standard): split at \<open>&\<close>, split each piece at its first \<open>=\<close>, turn \<open>+\<close> into a space and
  decode \<open>%XX\<close>. It is used below to say which keys and values a URL carries.
\<close>

definition hexval :: "char \<Rightarrow> nat option" where
  "hexval c =
     (let n = (of_char c :: nat) in
      if 48 \<le> n \<and> n \<le> 57 then Some (n - 48)
      else if 65 \<le> n \<and> n \<le> 70 then Some (n - 55)
      else if 97 \<le> n \<and> n \<le> 102 then Some (n - 87)
      else None)"

fun urldecode :: "string \<Rightarrow> string" where
  "urldecode [] = []"
| "urldecode (c # cs) =
     (if c = CHR ''+'' then CHR '' '' # urldecode cs
      else if c = CHR ''%'' then
        (case cs of
           h # l # r \<Rightarrow>
             (case (hexval h, hexval l) of
                (Some a, Some b) \<Rightarrow> char_of (16 * a + b) # urldecode r
              | _ \<Rightarrow> c # urldecode cs)
         | _ \<Rightarrow> c # urldecode cs)
      else c # urldecode cs)"

fun splitOn :: "char \<Rightarrow> string \<Rightarrow> string list" where
  "splitOn d [] = [[]]"
| "splitOn d (c # cs) =
     (if c = d then [] # splitOn d cs
      else (case splitOn d cs of [] \<Rightarrow> [[c]] | p # ps \<Rightarrow> (c # p) # ps))"

definition parsePair :: "string \<Rightarrow> string \<times> string" where
  "parsePair p =
     (urldecode (takeWhile (\<lambda>c. c \<noteq> CHR ''='') p),
      urldecode (drop 1 (dropWhile (\<lambda>c. c \<noteq> CHR ''='') p)))"

definition parseQuery :: "string \<Rightarrow> (string \<times> string) list" where
  "parseQuery q = map parsePair (filter (\<lambda>p. p \<noteq> []) (splitOn (CHR ''&'') q))"

definition queryOf :: "string \<Rightarrow> string" where
  "queryOf url = drop 1 (dropWhile (\<lambda>c. c \<noteq> CHR ''?'') url)"

section \<open>Data model\<close>

text \<open>
  A sentence as the list endpoint returns it. The fields are the ones the script reads:
  \<open>_id\<close>, \<open>text\<close>, \<open>name\<close>, \<open>category\<close> and \<open>createdAt\<close>.
\<close>

record sentence =
  s_id :: string
  s_text :: string
  s_name :: string
  s_category :: string
  s_createdAt :: string

text \<open>
  \<open>currentFilters\<close> (lines 22-27). \<open>handleFilterChange\<close> is only ever called with one of
  the four literal keys (lines 45-47 and 54), so a key is a value of a four-element type
  and the object is a record of its four properties.
\<close>

record filters =
  category :: string
  user :: string
  sortBy :: string
  search :: string

datatype filter_key = Category | User | SortBy | Search

definition defaultFilters :: filters where
  "defaultFilters =
     \<lparr>category = ''all'', user = ''all'', sortBy = ''newest'', search = []\<rparr>"

fun setFilter :: "filter_key \<Rightarrow> string \<Rightarrow> filters \<Rightarrow> filters" where
  "setFilter Category v f = f\<lparr>category := v\<rparr>"
| "setFilter User v f = f\<lparr>user := v\<rparr>"
| "setFilter SortBy v f = f\<lparr>sortBy := v\<rparr>"
| "setFilter Search v f = f\<lparr>search := v\<rparr>"

text \<open>
  \<open>new URLSearchParams(obj)\<close> takes the own properties of the object in their creation
  order, which assignment to an existing property does not change.
\<close>

definition URLSearchParams :: "filters \<Rightarrow> (string \<times> string) list" where
  "URLSearchParams f =
     [(''category'', category f), (''user'', user f), (''sortBy'', sortBy f),
      (''search'', search f)]"

definition sentencesUrl :: "filters \<Rightarrow> string" where
  "sentencesUrl f = ''/api/sentences?'' @ toString (URLSearchParams f)"

subsection \<open>The rendered list\<close>

text \<open>
  The children of \<open>sentencesList\<close>, as the browser builds them: whatever entries the
  served page has before the first render, the empty-state entry (line 220), the error
  entry (line 130), or one entry per sentence (lines 228-247).

  The entry of a sentence gets its classes through \<open>className\<close> and its content through
  \<open>innerHTML\<close>, with the name and the text escaped and the category and the id as they
  are. What the browser parses out of that is known when these two carry no character that
  means something in markup (a double quote, \<open>&\<close>, \<open><\<close>, \<open>>\<close>) and no control character:
  then the entry is a \<open>SentenceItem\<close> with
  \<^item> \<open>item_classes\<close>, the class tokens of the entry itself (the words of \<open>className\<close>),
  \<^item> \<open>item_badgeClasses\<close>, the class tokens of the category badge,
  \<^item> \<open>item_badge\<close>, the text of the badge (\<open>None\<close> when the browser chooses it, see
    \<open>getCategoryDisplayName\<close>),
  \<^item> \<open>item_deleteBtn\<close>, the \<open>data-id\<close> of the delete button, when the template puts one,
  \<^item> \<open>item_timestamp\<close>, the \<open>createdAt\<close> value handed to \<open>Date\<close>; its formatting by
    \<open>toLocaleString\<close> depends on the browser's locale and is left to the view.

  Otherwise the markup of the entry has elements of its own making, and the entry is
  \<open>Unparsed\<close>: an entry whose structure the model does not give.
\<close>

definition plainChar :: "char \<Rightarrow> bool" where
  "plainChar c =
     (32 \<le> (of_char c :: nat) \<and> c \<notin> {CHR 0x22, CHR ''&'', CHR ''<'', CHR ''>''})"

definition plain :: "string \<Rightarrow> bool" where
  "plain s = list_all plainChar s"

text \<open>The class tokens of a class string without control characters: its words.\<close>

definition classTokens :: "string \<Rightarrow> string list" where
  "classTokens s = filter (\<lambda>w. w \<noteq> []) (splitOn (CHR '' '') s)"

record item =
  item_classes :: "string list"
  item_author :: string
  item_badgeClasses :: "string list"
  item_badge :: "string option"
  item_text :: string
  item_timestamp :: string
  item_deleteBtn :: "string option"

datatype li = StaticEntry string | EmptyState | LoadError | SentenceItem item | Unparsed

subsection \<open>Requests, responses and other effects\<close>

record create_body =
  body_text :: string
  body_name :: string
  body_category :: string

datatype request = GET string | POST string create_body | DELETE string

datatype effect =
    Fetch request
  | Alert string
  | Confirm string
  | Navigate string
  | ConsoleError string string

text \<open>
  What \<open>await fetch(...)\<close> gives: the promise rejects with an error (its message), or it
  resolves to a response with a status and a body. \<open>response.json()\<close> either rejects (a
  body that is not JSON; the message is the parser's) or yields the parsed value. The
  bodies are typed by endpoint: a list of user names, a list of sentences, and for a create
  or delete request the \<open>error\<close> property of the returned object (\<open>None\<close> when the object
  has no such property).
\<close>

datatype 'a json = SyntaxError string | Json 'a

datatype 'a response = Rejected string | Response nat "'a json"

definition ok :: "nat \<Rightarrow> bool" where
  "ok status = (200 \<le> status \<and> status \<le> 299)"

text \<open>
  The server is not part of the script. It is a parameter: each endpoint answers from
  the log of effects so far, whose last entry is the request being answered, so that an
  answer may depend on everything that was requested before. An \<open>await\<close> is the
  question to the server, answered on the spot: an operation runs from its call to its
  end.
\<close>

record server =
  usersEndpoint :: "effect list \<Rightarrow> string list response"
  sentencesEndpoint :: "effect list \<Rightarrow> sentence list response"
  createEndpoint :: "effect list \<Rightarrow> string option response"
  deleteEndpoint :: "effect list \<Rightarrow> string option response"

subsection \<open>The controller\<close>

text \<open>
  The DOM elements the constructor looks up (lines 6-17), each by the properties the
  script reads or writes. An option of the user filter is a pair of its value and its
  label; the options of the other selects are in the page, not in the script, and a value
  assigned to one of them is taken to be among its options.
  \<open>activeFilters_innerHTML\<close> holds the text of the summary without the enclosing
  \<open>div\<close> and the template's white space; it is \<open>None\<close> when the summary includes a
  text that the browser chooses (see \<open>getCategoryDisplayName\<close> and \<open>capitalize\<close>). A
  script that markup in a summary or in a list entry may carry is not the controller's
  and is not modelled.
\<close>

record dom =
  nameInput_value :: string
  categorySelect_value :: string
  sentenceInput_value :: string
  addSentenceBtn_textContent :: string
  addSentenceBtn_disabled :: bool
  searchInput_value :: string
  categoryFilter_value :: string
  userFilter_options :: "(string \<times> string) list"
  userFilter_value :: string
  sortBy_value :: string
  activeFilters_innerHTML :: "string option"
  sentencesList_children :: "li list"
  sentencesCount_textContent :: string

text \<open>
  The controller's own fields (lines 20-29), and what it uses of the browser: the pending
  timers (handle and due time, in milliseconds), the next timer handle, the clock, and the
  log of effects (requests, dialogs, navigation, console errors) in the order they happen.
\<close>

record app = dom +
  allSentences :: "sentence list"
  allUsers :: "string list"
  currentFilters :: filters
  searchTimeout :: "nat option"
  timers :: "(nat \<times> nat) list"
  nextTimer :: nat
  clock :: nat
  effects :: "effect list"

definition emit :: "effect \<Rightarrow> app \<Rightarrow> app" where
  "emit e s = s\<lparr>effects := effects s @ [e]\<rparr>"

text \<open>
  Assigning to the \<open>value\<close> of a \<open>select\<close> selects the option with that value; when there
  is none, nothing is selected and the value reads as the empty string.
\<close>

definition selectValue :: "(string \<times> string) list \<Rightarrow> string \<Rightarrow> string" where
  "selectValue opts v = (if v \<in> set (map fst opts) then v else [])"

definition crossMark :: string where
  "crossMark = [CHR 0xE2, CHR 0x9D, CHR 0x8C]"

section \<open>Rendering\<close>

text \<open>
  \<open>getCategoryDisplayName\<close> (lines 287-298): the label of a known category, each with its
  emoji as UTF-8 bytes, and the category itself otherwise. The table is an object
  literal, so the names that every object inherits index it too; for these the result is
  a built-in function or object, whose text in a template is the browser's choice: the
  model gives \<open>None\<close>.
\<close>

definition categoryMap :: "(string \<times> string) list" where
  "categoryMap =
     [(''thoughts'', [CHR 0xF0, CHR 0x9F, CHR 0x92, CHR 0xAD] @ '' Thoughts''),
      (''quotes'', [CHR 0xF0, CHR 0x9F, CHR 0x92, CHR 0xAC] @ '' Quotes''),
      (''stories'', [CHR 0xF0, CHR 0x9F, CHR 0x93, CHR 0x96] @ '' Stories''),
      (''jokes'', [CHR 0xF0, CHR 0x9F, CHR 0x98, CHR 0x82] @ '' Jokes''),
      (''questions'', [CHR 0xE2, CHR 0x9D, CHR 0x93] @ '' Questions''),
      (''facts'', [CHR 0xF0, CHR 0x9F, CHR 0x94, CHR 0x8D] @ '' Facts''),
      (''other'', [CHR 0xF0, CHR 0x9F, CHR 0x93, CHR 0x8C] @ '' Other'')]"

definition inherited :: "string list" where
  "inherited =
     [''constructor'', ''hasOwnProperty'', ''isPrototypeOf'', ''propertyIsEnumerable'',
      ''toLocaleString'', ''toString'', ''valueOf'', ''__proto__'', ''__defineGetter__'',
      ''__defineSetter__'', ''__lookupGetter__'', ''__lookupSetter__'']"

definition getCategoryDisplayName :: "string \<Rightarrow> string option" where
  "getCategoryDisplayName c =
     (case map_of categoryMap c of
        Some d \<Rightarrow> Some d
      | None \<Rightarrow> if c \<in> set inherited then None else Some c)"

text \<open>
  One list entry, as the template of lines 228-245 fills it for the name \<open>currentUser\<close>.
  The id is interpolated only when the template puts the button.
\<close>

definition renderItem :: "string \<Rightarrow> sentence \<Rightarrow> li" where
  "renderItem currentUser x =
     (if plain (s_category x) \<and> (if s_name x = currentUser then plain (s_id x) else True)
      then
        SentenceItem
          \<lparr>item_classes = classTokens (''sentence-item '' @ s_category x),
           item_author = escapeHtml (s_name x),
           item_badgeClasses = classTokens (''category-badge category-'' @ s_category x),
           item_badge = getCategoryDisplayName (s_category x),
           item_text = escapeHtml (s_text x),
           item_timestamp = s_createdAt x,
           item_deleteBtn = (if s_name x = currentUser then Some (s_id x) else None)\<rparr>
      else Unparsed)"

text \<open>\<open>renderSentences\<close> (lines 215-257).\<close>

definition renderSentences :: "app \<Rightarrow> app" where
  "renderSentences s =
     (let s1 = s\<lparr>sentencesList_children := [],
                 sentencesCount_textContent := decimal (length (allSentences s)) @ '' Messages''\<rparr>
      in if length (allSentences s1) = 0 then s1\<lparr>sentencesList_children := [EmptyState]\<rparr>
         else
           (let currentUser = nameInput_value s1
            in s1\<lparr>sentencesList_children := map (renderItem currentUser) (allSentences s1)\<rparr>))"

text \<open>
  The last step of \<open>renderSentences\<close> (lines 251-256) gives a click listener to every
  element under the list that has the class \<open>delete-btn\<close>. In the entry of a sentence
  these can be the entry itself, the category badge and the delete button; the other
  elements of the template have fixed classes. The empty-state entry has none, and the
  error entry and the entries of the served page are never looked at. For an
  \<open>Unparsed\<close> entry the elements are not known.
\<close>

datatype hook = HookItem | HookBadge | HookButton string

definition hooks :: "li \<Rightarrow> hook list option" where
  "hooks e =
     (case e of
        SentenceItem it \<Rightarrow>
          Some
            ((if ''delete-btn'' \<in> set (item_classes it) then [HookItem] else []) @
             (if ''delete-btn'' \<in> set (item_badgeClasses it) then [HookBadge] else []) @
             (case item_deleteBtn it of None \<Rightarrow> [] | Some i \<Rightarrow> [HookButton i]))
      | Unparsed \<Rightarrow> None
      | _ \<Rightarrow> Some [])"

text \<open>
  \<open>renderActiveFiltersText\<close> (lines 259-285). Upper-casing the first letter is given for
  ASCII, which is what the values of the sort control are; for any other first character
  \<open>toUpperCase\<close> follows the Unicode tables and the model gives \<open>None\<close>.
\<close>

definition toUpperCase :: "char \<Rightarrow> char option" where
  "toUpperCase c =
     (let n = (of_char c :: nat)
      in if 128 \<le> n then None
         else if 97 \<le> n \<and> n \<le> 122 then Some (char_of (n - 32))
         else Some c)"

definition capitalize :: "string \<Rightarrow> string option" where
  "capitalize s =
     (case s of
        [] \<Rightarrow> Some []
      | c # cs \<Rightarrow> (case toUpperCase c of None \<Rightarrow> None | Some u \<Rightarrow> Some (u # cs)))"

definition filterParts :: "filters \<Rightarrow> string list option" where
  "filterParts f =
     (case (if category f = ''all'' then Some []
            else (case getCategoryDisplayName (category f) of
                    None \<Rightarrow> None
                  | Some n \<Rightarrow> Some [''Category: **'' @ n @ ''**'']),
            capitalize (sortBy f)) of
        (Some c, Some s) \<Rightarrow>
          Some
            (c @
             (if user f = ''all'' then [] else [''User: **'' @ user f @ ''**'']) @
             (if search f = [] \<or> trim (search f) = [] then []
              else [''Search: **'' @ [CHR 0x22] @ search f @ [CHR 0x22] @ ''**'']) @
             [''Sorted by: **'' @ s @ ''**''])
      | _ \<Rightarrow> None)"

definition renderActiveFiltersText :: "app \<Rightarrow> app" where
  "renderActiveFiltersText s =
     (let s1 = s\<lparr>activeFilters_innerHTML := Some []\<rparr>
      in case filterParts (currentFilters s1) of
           None \<Rightarrow> s1\<lparr>activeFilters_innerHTML := None\<rparr>
         | Some parts \<Rightarrow>
             if length parts > 0
             then s1\<lparr>activeFilters_innerHTML := Some (''Current View: '' @ join '' | '' parts)\<rparr>
             else s1)"

section \<open>Loading\<close>

text \<open>\<open>loadUsersForFilter\<close> (lines 69-93).\<close>

definition loadUsersForFilter :: "server \<Rightarrow> app \<Rightarrow> app" where
  "loadUsersForFilter srv s =
     (let s1 = emit (Fetch (GET ''/api/sentences/users'')) s;
          caught = (\<lambda>m. emit (ConsoleError (crossMark @ '' Error loading users:'') m) s1)
      in case usersEndpoint srv (effects s1) of
           Rejected m \<Rightarrow> caught m
         | Response status body \<Rightarrow>
             if \<not> ok status then caught ''Failed to load users''
             else
               (case body of
                  SyntaxError m \<Rightarrow> caught m
                | Json users \<Rightarrow>
                    (let opts = (''all'', ''All Users'') # map (\<lambda>u. (u, u)) users
                     in s1\<lparr>allUsers := users,
                           userFilter_options := opts,
                           userFilter_value := selectValue opts (user (currentFilters s1))\<rparr>)))"

text \<open>\<open>fetchAndRenderSentences\<close> (lines 116-132).\<close>

definition fetchAndRenderSentences :: "server \<Rightarrow> app \<Rightarrow> app" where
  "fetchAndRenderSentences srv s =
     (let url = sentencesUrl (currentFilters s);
          s1 = emit (Fetch (GET url)) s;
          caught = (\<lambda>m. (emit (ConsoleError (crossMark @ '' Error fetching messages:'') m) s1)
                          \<lparr>sentencesList_children := [LoadError]\<rparr>)
      in case sentencesEndpoint srv (effects s1) of
           Rejected m \<Rightarrow> caught m
         | Response status body \<Rightarrow>
             if \<not> ok status then caught ''Failed to fetch messages''
             else
               (case body of
                  SyntaxError m \<Rightarrow> caught m
                | Json sentences \<Rightarrow>
                    renderActiveFiltersText (renderSentences (s1\<lparr>allSentences := sentences\<rparr>))))"

text \<open>\<open>loadInitialData\<close> (lines 64-67).\<close>

definition loadInitialData :: "server \<Rightarrow> app \<Rightarrow> app" where
  "loadInitialData srv s = fetchAndRenderSentences srv (loadUsersForFilter srv s)"

section \<open>Create and delete\<close>

text \<open>
  \<open>addSentence\<close> (lines 136-179), in the three parts the source has: the \<open>try\<close> block
  with its \<open>catch\<close> handler (\<open>addSentenceTry\<close>), around it the disabling of the button
  before and the \<open>finally\<close> block after, and before all of that the local validation.
  A \<open>throw\<close> inside the \<open>try\<close> block is the call of \<open>caught\<close> with the error's message.
\<close>

definition addSentenceTry :: "server \<Rightarrow> create_body \<Rightarrow> app \<Rightarrow> app" where
  "addSentenceTry srv body s =
     (let s1 = emit (Fetch (POST ''/api/sentences'' body)) s;
          caught = (\<lambda>m. emit (Alert (''Error creating message: '' @ m))
                          (emit (ConsoleError (crossMark @ '' Error adding message:'') m) s1))
      in case createEndpoint srv (effects s1) of
           Rejected m \<Rightarrow> caught m
         | Response status errorData \<Rightarrow>
             if ok status then
               loadInitialData srv
                 (s1\<lparr>sentenceInput_value := [], categorySelect_value := ''thoughts''\<rparr>)
             else if status = 401 then
               emit (Navigate ''/auth/login'')
                 (emit (Alert ''You must be logged in to post a message. Redirecting to login.'') s1)
             else
               (case errorData of
                  SyntaxError m \<Rightarrow> caught m
                | Json None \<Rightarrow> caught ''Failed to add message.''
                | Json (Some e) \<Rightarrow> caught (if e = [] then ''Failed to add message.'' else e)))"

definition addSentence :: "server \<Rightarrow> app \<Rightarrow> app" where
  "addSentence srv s =
     (let text = trim (sentenceInput_value s);
          name = trim (nameInput_value s);
          category = categorySelect_value s
      in if text = [] \<or> name = [] then emit (Alert ''Your message cannot be empty.'') s
         else
           (let s1 = s\<lparr>addSentenceBtn_textContent := ''Adding...'',
                       addSentenceBtn_disabled := True\<rparr>;
                s2 = addSentenceTry srv
                       \<lparr>body_text = text, body_name = name, body_category = category\<rparr> s1
            in s2\<lparr>addSentenceBtn_textContent := ''Add'', addSentenceBtn_disabled := False\<rparr>))"

text \<open>
  \<open>deleteSentence\<close> (lines 183-211). The answer to the confirmation dialog is the user's
  and comes with the click.
\<close>

definition deleteSentence :: "server \<Rightarrow> string \<Rightarrow> bool \<Rightarrow> app \<Rightarrow> app" where
  "deleteSentence srv sid confirmed s =
     (let s0 = emit (Confirm
                 ''Are you sure you want to delete this message? This action is permanent.'') s
      in if \<not> confirmed then s0
         else
           (let s1 = emit (Fetch (DELETE (''/api/sentences/'' @ sid))) s0;
                caught = (\<lambda>m. emit (Alert (''Error deleting message: '' @ m))
                                (emit (ConsoleError (crossMark @ '' Error deleting message:'') m) s1))
            in case deleteEndpoint srv (effects s1) of
                 Rejected m \<Rightarrow> caught m
               | Response status errorData \<Rightarrow>
                   if ok status then loadInitialData srv s1
                   else if status = 403 then
                     emit (Alert
                       ''You can only delete your own messages. This message belongs to another user.'')
                       s1
                   else if status = 401 then
                     emit (Navigate ''/auth/login'')
                       (emit (Alert
                          ''You must be logged in to delete a message. Redirecting to login.'') s1)
                   else
                     (case errorData of
                        SyntaxError m \<Rightarrow> caught m
                      | Json None \<Rightarrow> caught ''Failed to delete message''
                      | Json (Some e) \<Rightarrow>
                          caught (if e = [] then ''Failed to delete message'' else e))))"

section \<open>One await at a time\<close>

text \<open>
  The operations above run from their call to their end, each \<open>await\<close> answered on the
  spot. In the browser an operation stops at an \<open>await\<close> of a request and goes on when
  the response arrives; until then other listeners run, and the constructor does not wait
  for the first load (line 59), nor \<open>handleFilterChange\<close> for its fetch (line 98). So
  here are the same operations in the pieces between the awaits. A state of the page is
  the controller with the operations that wait for a response, oldest first.

  A waiting operation is the request it waits for and what its caller does afterwards:
  \<open>Reenable\<close> is the \<open>finally\<close> block of \<open>addSentence\<close>, which awaits the reload;
  \<open>Nothing\<close> is any other caller. The status and the body of a response arrive together:
  between \<open>await fetch\<close> and \<open>await response.json()\<close> an operation touches nothing.
\<close>

datatype after = Nothing | Reenable

datatype task = AwaitUsers after | AwaitSentences after | AwaitCreate | AwaitDelete

datatype reply =
    Users "string list response"
  | Sentences "sentence list response"
  | Created "string option response"
  | Deleted "string option response"

type_synonym live = "app \<times> task list"

text \<open>\<open>loadUsersForFilter\<close> (lines 69-93): up to the request, and from the response on.\<close>

definition loadUsersForFilter_call :: "app \<Rightarrow> app" where
  "loadUsersForFilter_call s = emit (Fetch (GET ''/api/sentences/users'')) s"

definition loadUsersForFilter_resume :: "string list response \<Rightarrow> app \<Rightarrow> app" where
  "loadUsersForFilter_resume r s1 =
     (let caught = (\<lambda>m. emit (ConsoleError (crossMark @ '' Error loading users:'') m) s1)
      in case r of
           Rejected m \<Rightarrow> caught m
         | Response status body \<Rightarrow>
             if \<not> ok status then caught ''Failed to load users''
             else
               (case body of
                  SyntaxError m \<Rightarrow> caught m
                | Json users \<Rightarrow>
                    (let opts = (''all'', ''All Users'') # map (\<lambda>u. (u, u)) users
                     in s1\<lparr>allUsers := users,
                           userFilter_options := opts,
                           userFilter_value := selectValue opts (user (currentFilters s1))\<rparr>)))"

text \<open>\<open>fetchAndRenderSentences\<close> (lines 116-132), likewise.\<close>

definition fetchAndRenderSentences_call :: "app \<Rightarrow> app" where
  "fetchAndRenderSentences_call s =
     (let url = sentencesUrl (currentFilters s) in emit (Fetch (GET url)) s)"

definition fetchAndRenderSentences_resume :: "sentence list response \<Rightarrow> app \<Rightarrow> app" where
  "fetchAndRenderSentences_resume r s1 =
     (let caught = (\<lambda>m. (emit (ConsoleError (crossMark @ '' Error fetching messages:'') m) s1)
                          \<lparr>sentencesList_children := [LoadError]\<rparr>)
      in case r of
           Rejected m \<Rightarrow> caught m
         | Response status body \<Rightarrow>
             if \<not> ok status then caught ''Failed to fetch messages''
             else
               (case body of
                  SyntaxError m \<Rightarrow> caught m
                | Json sentences \<Rightarrow>
                    renderActiveFiltersText (renderSentences (s1\<lparr>allSentences := sentences\<rparr>))))"

text \<open>What the caller does when the operation it awaited is over.\<close>

definition finish :: "after \<Rightarrow> app \<Rightarrow> app" where
  "finish k s =
     (case k of
        Nothing \<Rightarrow> s
      | Reenable \<Rightarrow> s\<lparr>addSentenceBtn_textContent := ''Add'', addSentenceBtn_disabled := False\<rparr>)"

text \<open>
  Starting the fetch of the list, and \<open>loadInitialData\<close> (lines 64-67), which starts with
  the users and goes on with the list when they have arrived.
\<close>

definition fetchAndRenderSentences_start :: "after \<Rightarrow> live \<Rightarrow> live" where
  "fetchAndRenderSentences_start k l =
     (fetchAndRenderSentences_call (fst l), snd l @ [AwaitSentences k])"

definition loadInitialData_call :: "after \<Rightarrow> live \<Rightarrow> live" where
  "loadInitialData_call k l = (loadUsersForFilter_call (fst l), snd l @ [AwaitUsers k])"

text \<open>\<open>handleFilterChange\<close> (lines 96-99) and \<open>clearAllFilters\<close> (lines 101-114).\<close>

definition handleFilterChange :: "filter_key \<Rightarrow> string \<Rightarrow> live \<Rightarrow> live" where
  "handleFilterChange key v l =
     fetchAndRenderSentences_start Nothing
       ((fst l)\<lparr>currentFilters := setFilter key v (currentFilters (fst l))\<rparr>, snd l)"

definition clearAllFilters :: "live \<Rightarrow> live" where
  "clearAllFilters l =
     fetchAndRenderSentences_start Nothing
       ((fst l)\<lparr>currentFilters := defaultFilters,
                categoryFilter_value := ''all'',
                userFilter_value := selectValue (userFilter_options (fst l)) ''all'',
                sortBy_value := ''newest'',
                searchInput_value := []\<rparr>, snd l)"

text \<open>\<open>addSentence\<close> (lines 136-179): up to the request, and from the response on.\<close>

definition addSentence_call :: "live \<Rightarrow> live" where
  "addSentence_call l =
     (let s = fst l;
          text = trim (sentenceInput_value s);
          name = trim (nameInput_value s);
          category = categorySelect_value s
      in if text = [] \<or> name = [] then (emit (Alert ''Your message cannot be empty.'') s, snd l)
         else
           (let s1 = s\<lparr>addSentenceBtn_textContent := ''Adding...'',
                       addSentenceBtn_disabled := True\<rparr>
            in (emit (Fetch (POST ''/api/sentences''
                        \<lparr>body_text = text, body_name = name, body_category = category\<rparr>)) s1,
                snd l @ [AwaitCreate])))"

definition addSentence_resume :: "string option response \<Rightarrow> live \<Rightarrow> live" where
  "addSentence_resume r l =
     (let s1 = fst l;
          caught = (\<lambda>m. (finish Reenable
                           (emit (Alert (''Error creating message: '' @ m))
                              (emit (ConsoleError (crossMark @ '' Error adding message:'') m) s1)),
                          snd l))
      in case r of
           Rejected m \<Rightarrow> caught m
         | Response status errorData \<Rightarrow>
             if ok status then
               loadInitialData_call Reenable
                 (s1\<lparr>sentenceInput_value := [], categorySelect_value := ''thoughts''\<rparr>, snd l)
             else if status = 401 then
               (finish Reenable
                  (emit (Navigate ''/auth/login'')
                     (emit (Alert ''You must be logged in to post a message. Redirecting to login.'')
                        s1)),
                snd l)
             else
               (case errorData of
                  SyntaxError m \<Rightarrow> caught m
                | Json None \<Rightarrow> caught ''Failed to add message.''
                | Json (Some e) \<Rightarrow> caught (if e = [] then ''Failed to add message.'' else e)))"

text \<open>\<open>deleteSentence\<close> (lines 183-211), likewise.\<close>

definition deleteSentence_call :: "string \<Rightarrow> bool \<Rightarrow> live \<Rightarrow> live" where
  "deleteSentence_call sid confirmed l =
     (let s0 = emit (Confirm
                 ''Are you sure you want to delete this message? This action is permanent.'')
                 (fst l)
      in if \<not> confirmed then (s0, snd l)
         else (emit (Fetch (DELETE (''/api/sentences/'' @ sid))) s0, snd l @ [AwaitDelete]))"

definition deleteSentence_resume :: "string option response \<Rightarrow> live \<Rightarrow> live" where
  "deleteSentence_resume r l =
     (let s1 = fst l;
          caught = (\<lambda>m. (emit (Alert (''Error deleting message: '' @ m))
                           (emit (ConsoleError (crossMark @ '' Error deleting message:'') m) s1),
                          snd l))
      in case r of
           Rejected m \<Rightarrow> caught m
         | Response status errorData \<Rightarrow>
             if ok status then loadInitialData_call Nothing l
             else if status = 403 then
               (emit (Alert
                  ''You can only delete your own messages. This message belongs to another user.'')
                  s1,
                snd l)
             else if status = 401 then
               (emit (Navigate ''/auth/login'')
                  (emit (Alert
                     ''You must be logged in to delete a message. Redirecting to login.'') s1),
                snd l)
             else
               (case errorData of
                  SyntaxError m \<Rightarrow> caught m
                | Json None \<Rightarrow> caught ''Failed to delete message''
                | Json (Some e) \<Rightarrow>
                    caught (if e = [] then ''Failed to delete message'' else e)))"

text \<open>
  A response arrives for the waiting operation at position \<open>i\<close>, which leaves the list
  and goes on. A response of the wrong kind, or for a position where nothing waits, is
  nothing that can happen, and changes nothing.
\<close>

fun resume :: "task \<Rightarrow> reply \<Rightarrow> live \<Rightarrow> live option" where
  "resume (AwaitUsers k) (Users r) l =
     Some (fetchAndRenderSentences_start k (loadUsersForFilter_resume r (fst l), snd l))"
| "resume (AwaitSentences k) (Sentences r) l =
     Some (finish k (fetchAndRenderSentences_resume r (fst l)), snd l)"
| "resume AwaitCreate (Created r) l = Some (addSentence_resume r l)"
| "resume AwaitDelete (Deleted r) l = Some (deleteSentence_resume r l)"
| "resume t r l = None"

definition arrive :: "nat \<Rightarrow> reply \<Rightarrow> live \<Rightarrow> live" where
  "arrive i r l =
     (if i < length (snd l)
      then (case resume (snd l ! i) r (fst l, take i (snd l) @ drop (Suc i) (snd l)) of
              None \<Rightarrow> l
            | Some l' \<Rightarrow> l')
      else l)"

text \<open>
  With a server that answers the oldest waiting operation at once, from the log as it
  is, the pieces make up the operations of the sections before.
\<close>

definition answer :: "server \<Rightarrow> live \<Rightarrow> live" where
  "answer srv l =
     (case snd l of
        [] \<Rightarrow> l
      | t # ts \<Rightarrow>
          arrive 0
            (case t of
               AwaitUsers k \<Rightarrow> Users (usersEndpoint srv (effects (fst l)))
             | AwaitSentences k \<Rightarrow> Sentences (sentencesEndpoint srv (effects (fst l)))
             | AwaitCreate \<Rightarrow> Created (createEndpoint srv (effects (fst l)))
             | AwaitDelete \<Rightarrow> Deleted (deleteEndpoint srv (effects (fst l))))
            l)"

section \<open>The search debounce\<close>

text \<open>
  The browser's timers: \<open>setTimeout\<close> registers a timer under a fresh handle, due after
  the delay; \<open>clearTimeout\<close> removes the timer with the given handle, if it is still
  pending, and does nothing for \<open>null\<close>. The only callback the script ever registers is
  the one of line 54, so a timer is its handle and its due time.
\<close>

definition clearTimeout :: "nat option \<Rightarrow> app \<Rightarrow> app" where
  "clearTimeout h s =
     (case h of
        None \<Rightarrow> s
      | Some i \<Rightarrow> s\<lparr>timers := filter (\<lambda>t. fst t \<noteq> i) (timers s)\<rparr>)"

definition setTimeout :: "nat \<Rightarrow> app \<Rightarrow> nat \<times> app" where
  "setTimeout delay s =
     (nextTimer s,
      s\<lparr>timers := timers s @ [(nextTimer s, clock s + delay)],
        nextTimer := Suc (nextTimer s)\<rparr>)"

text \<open>The listener of the search field (lines 51-56).\<close>

definition onSearchInput :: "app \<Rightarrow> app" where
  "onSearchInput s =
     (let s1 = clearTimeout (searchTimeout s) s;
          (h, s2) = setTimeout 300 s1
      in s2\<lparr>searchTimeout := Some h\<rparr>)"

text \<open>The timer's callback (line 54), run when the timer fires.\<close>

definition onSearchTimer :: "live \<Rightarrow> live" where
  "onSearchTimer l = handleFilterChange Search (searchInput_value (fst l)) l"

section \<open>Events\<close>

text \<open>
  What can happen to the page, one event at a time: the user edits a field, picks an
  option, clicks, presses a key in the sentence field; time passes; a pending timer that
  is due fires; a response arrives. (A disabled button gets no click, so a click on the
  submit button while it is disabled does nothing; the Enter key is not held back.) Between two events the page is at rest, so a run of
  events takes it through every state it can be seen in, including the one before the
  first load has come back and those with several requests under way. (A navigation
  leaves the page; the model notes it in the log and lets events go on.)

  A click in the list lands on an element of the entry at the given position: on its
  delete button, on its category badge, or elsewhere in the entry. The listeners of that
  element and of the elements around it run, innermost first. Each calls
  \<open>deleteSentence\<close> with the \<open>data-id\<close> of the element clicked (\<open>undefined\<close> when it has
  none, which the URL spells out) and shows its own confirmation dialog; the answers come
  with the click, one per dialog, and a dialog without an answer is declined. In an
  \<open>Unparsed\<close> entry the click lands on an element of the entry's own making: how many
  listeners run, and with which \<open>data-id\<close>, comes with the click.
\<close>

datatype hit = OnButton | OnBadge | OnItem | OnInjected "string option" nat

definition triggered :: "li \<Rightarrow> hit \<Rightarrow> string \<times> nat" where
  "triggered e h =
     (case e of
        SentenceItem it \<Rightarrow>
          (let onItem = (if ''delete-btn'' \<in> set (item_classes it) then 1 else 0);
               onBadge = (if ''delete-btn'' \<in> set (item_badgeClasses it) then 1 else 0)
           in case h of
                OnButton \<Rightarrow>
                  (case item_deleteBtn it of
                     None \<Rightarrow> ([], 0)
                   | Some i \<Rightarrow> (i, Suc onItem))
              | OnBadge \<Rightarrow> (''undefined'', onBadge + onItem)
              | OnItem \<Rightarrow> (''undefined'', onItem)
              | OnInjected i n \<Rightarrow> ([], 0))
      | Unparsed \<Rightarrow>
          (case h of
             OnInjected i n \<Rightarrow> ((case i of None \<Rightarrow> ''undefined'' | Some d \<Rightarrow> d), n)
           | _ \<Rightarrow> ([], 0))
      | _ \<Rightarrow> ([], 0))"

fun listenersRun :: "string \<Rightarrow> nat \<Rightarrow> bool list \<Rightarrow> live \<Rightarrow> live" where
  "listenersRun sid 0 answers l = l"
| "listenersRun sid (Suc n) answers l =
     listenersRun sid n (drop 1 answers)
       (deleteSentence_call sid (case answers of [] \<Rightarrow> False | a # _ \<Rightarrow> a) l)"

datatype event =
    InputName string
  | InputSentence string
  | SelectCategory string
  | ClickAdd
  | KeypressSentence string
  | ChangeCategoryFilter string
  | ChangeUserFilter string
  | ChangeSortBy string
  | ClickClearFilters
  | InputSearch string
  | Click nat hit "bool list"
  | Elapse nat
  | TimerFires nat
  | Arrive nat reply

definition due :: "app \<Rightarrow> nat \<Rightarrow> bool" where
  "due s h = (case map_of (timers s) h of None \<Rightarrow> False | Some t \<Rightarrow> t \<le> clock s)"

fun step :: "live \<Rightarrow> event \<Rightarrow> live" where
  "step l (InputName v) = ((fst l)\<lparr>nameInput_value := v\<rparr>, snd l)"
| "step l (InputSentence v) = ((fst l)\<lparr>sentenceInput_value := v\<rparr>, snd l)"
| "step l (SelectCategory v) = ((fst l)\<lparr>categorySelect_value := v\<rparr>, snd l)"
| "step l ClickAdd = (if addSentenceBtn_disabled (fst l) then l else addSentence_call l)"
| "step l (KeypressSentence key) = (if key = ''Enter'' then addSentence_call l else l)"
| "step l (ChangeCategoryFilter v) =
     (let s1 = (fst l)\<lparr>categoryFilter_value := v\<rparr>
      in handleFilterChange Category (categoryFilter_value s1) (s1, snd l))"
| "step l (ChangeUserFilter v) =
     (let s1 = (fst l)\<lparr>userFilter_value := v\<rparr>
      in handleFilterChange User (userFilter_value s1) (s1, snd l))"
| "step l (ChangeSortBy v) =
     (let s1 = (fst l)\<lparr>sortBy_value := v\<rparr>
      in handleFilterChange SortBy (sortBy_value s1) (s1, snd l))"
| "step l ClickClearFilters = clearAllFilters l"
| "step l (InputSearch v) = (onSearchInput ((fst l)\<lparr>searchInput_value := v\<rparr>), snd l)"
| "step l (Click i h answers) =
     (if i < length (sentencesList_children (fst l))
      then (let (sid, n) = triggered (sentencesList_children (fst l) ! i) h
            in listenersRun sid n answers l)
      else l)"
| "step l (Elapse d) = ((fst l)\<lparr>clock := clock (fst l) + d\<rparr>, snd l)"
| "step l (TimerFires h) =
     (if due (fst l) h
      then onSearchTimer ((fst l)\<lparr>timers := filter (\<lambda>t. fst t \<noteq> h) (timers (fst l))\<rparr>, snd l)
      else l)"
| "step l (Arrive i r) = arrive i r l"

text \<open>
  The constructor (lines 4-33) initialises the fields and calls \<open>init\<close> (lines 35-60),
  which registers the listeners (they are the cases of \<open>step\<close>) and starts the first load
  without waiting for it.
\<close>

definition construct :: "dom \<Rightarrow> app" where
  "construct d =
     dom.extend d
       \<lparr>allSentences = [], allUsers = [], currentFilters = defaultFilters,
        searchTimeout = None, timers = [], nextTimer = 1, clock = 0, effects = []\<rparr>"

definition init :: "live \<Rightarrow> live" where
  "init l = loadInitialData_call Nothing l"

definition SentenceApp :: "dom \<Rightarrow> live" where
  "SentenceApp d = init (construct d, [])"

definition run :: "dom \<Rightarrow> event list \<Rightarrow> live" where
  "run d evs = foldl step (SentenceApp d) evs"

section \<open>Observing a run\<close>

text \<open>
  \<open>since s s'\<close> are the effects that happened between a state \<open>s\<close> and a later state
  \<open>s'\<close>; \<open>requests\<close> and \<open>alerts\<close> pick the network requests and the alert texts out of
  a log.
\<close>

definition since :: "app \<Rightarrow> app \<Rightarrow> effect list" where
  "since s s' = drop (length (effects s)) (effects s')"

definition requests :: "effect list \<Rightarrow> request list" where
  "requests es = concat (map (\<lambda>e. case e of Fetch r \<Rightarrow> [r] | _ \<Rightarrow> []) es)"

definition alerts :: "effect list \<Rightarrow> string list" where
  "alerts es = concat (map (\<lambda>e. case e of Alert m \<Rightarrow> [m] | _ \<Rightarrow> []) es)"

text \<open>The requests of the script, as the operations build them.\<close>

definition usersRequest :: request where
  "usersRequest = GET ''/api/sentences/users''"

definition sentencesRequest :: "app \<Rightarrow> request" where
  "sentencesRequest s = GET (sentencesUrl (currentFilters s))"

definition createRequest :: "app \<Rightarrow> request" where
  "createRequest s =
     POST ''/api/sentences''
       \<lparr>body_text = trim (sentenceInput_value s), body_name = trim (nameInput_value s),
        body_category = categorySelect_value s\<rparr>"

definition deleteRequest :: "string \<Rightarrow> request" where
  "deleteRequest sid = DELETE (''/api/sentences/'' @ sid)"

text \<open>
  The answers that a call started in state \<open>s\<close> gets from the server: to the create
  request and to the delete request (which follows the confirmation dialog).
\<close>

definition confirmText :: string where
  "confirmText = ''Are you sure you want to delete this message? This action is permanent.''"

definition createReply :: "server \<Rightarrow> app \<Rightarrow> string option response" where
  "createReply srv s = createEndpoint srv (effects s @ [Fetch (createRequest s)])"

definition deleteReply :: "server \<Rightarrow> string \<Rightarrow> app \<Rightarrow> string option response" where
  "deleteReply srv sid s =
     deleteEndpoint srv (effects s @ [Confirm confirmText, Fetch (deleteRequest sid)])"

text \<open>The list a response carries: its status is 2xx and its body parses.\<close>

fun fetched :: "'a response \<Rightarrow> 'a option" where
  "fetched (Rejected m) = None"
| "fetched (Response status (SyntaxError m)) = None"
| "fetched (Response status (Json x)) = (if ok status then Some x else None)"

text \<open>
  The time since the last input in the search field, over a sequence of events:
  \<open>None\<close> while there has been no such input.
\<close>

fun quietStep :: "nat option \<Rightarrow> event \<Rightarrow> nat option" where
  "quietStep q (InputSearch v) = Some 0"
| "quietStep q (Elapse d) = map_option (\<lambda>t. t + d) q"
| "quietStep q e = q"

definition quiet :: "event list \<Rightarrow> nat option" where
  "quiet evs = foldl quietStep None evs"

text \<open>The number of inputs in the search field, and the events of the search field.\<close>

fun isInputSearch :: "event \<Rightarrow> bool" where
  "isInputSearch (InputSearch v) = True"
| "isInputSearch e = False"

definition inputs :: "event list \<Rightarrow> nat" where
  "inputs evs = length (filter isInputSearch evs)"

fun searchEvent :: "event \<Rightarrow> bool" where
  "searchEvent (InputSearch v) = True"
| "searchEvent (Elapse d) = True"
| "searchEvent (TimerFires h) = True"
| "searchEvent e = False"

text \<open>
  What the last response to a request for the list was, over a run: none yet, a failure
  (no response, a status outside 2xx, a body that does not parse), or an array, together
  with the value of the name field at that moment. \<open>arrival\<close> says what an event brings
  in a given state, \<open>history\<close> follows the run and keeps the last arrival and the array of
  the last arrival that brought one; it is the empty array before the first.
\<close>

datatype outcome = NotYet | Failed | Arrived string "sentence list"

fun arrival :: "live \<Rightarrow> event \<Rightarrow> outcome option" where
  "arrival l (Arrive i (Sentences r)) =
     (if i < length (snd l)
      then (case snd l ! i of
              AwaitSentences k \<Rightarrow>
                Some (case fetched r of
                        None \<Rightarrow> Failed
                      | Some xs \<Rightarrow> Arrived (nameInput_value (fst l)) xs)
            | _ \<Rightarrow> None)
      else None)"
| "arrival l e = None"

definition watch ::
  "live \<times> outcome \<times> sentence list \<Rightarrow> event \<Rightarrow> live \<times> outcome \<times> sentence list" where
  "watch h e =
     (step (fst h) e,
      (case arrival (fst h) e of None \<Rightarrow> fst (snd h) | Some out \<Rightarrow> out),
      (case arrival (fst h) e of Some (Arrived u xs) \<Rightarrow> xs | _ \<Rightarrow> snd (snd h)))"

definition history :: "dom \<Rightarrow> event list \<Rightarrow> live \<times> outcome \<times> sentence list" where
  "history d evs = foldl watch (SentenceApp d, NotYet, []) evs"

definition lastArrival :: "dom \<Rightarrow> event list \<Rightarrow> outcome" where
  "lastArrival d evs = fst (snd (history d evs))"

definition lastArray :: "dom \<Rightarrow> event list \<Rightarrow> sentence list" where
  "lastArray d evs = snd (snd (history d evs))"

section \<open>Sample inputs\<close>

definition sampleDom :: dom where
  "sampleDom =
     \<lparr>nameInput_value = ''bob'', categorySelect_value = ''facts'',
      sentenceInput_value = ''hi'', addSentenceBtn_textContent = ''Add'',
      addSentenceBtn_disabled = False, searchInput_value = [],
      categoryFilter_value = ''all'', userFilter_options = [(''all'', ''All Users'')],
      userFilter_value = ''all'', sortBy_value = ''newest'', activeFilters_innerHTML = Some [],
      sentencesList_children = [], sentencesCount_textContent = []\<rparr>"

definition sampleSentences :: "sentence list" where
  "sampleSentences =
     [\<lparr>s_id = ''a1'', s_text = ''2 < 3'', s_name = ''bob'', s_category = ''facts'',
       s_createdAt = ''2024-01-01T00:00:00Z''\<rparr>,
      \<lparr>s_id = ''a2'', s_text = ''hello'', s_name = ''amy'', s_category = ''jokes'',
       s_createdAt = ''2024-01-02T00:00:00Z''\<rparr>]"

text \<open>A sentence of another author whose category is the class of the delete button.\<close>

definition foreignSentence :: sentence where
  "foreignSentence =
     \<lparr>s_id = ''a3'', s_text = ''not yours'', s_name = ''amy'', s_category = ''delete-btn'',
      s_createdAt = ''2024-01-03T00:00:00Z''\<rparr>"

text \<open>
  A server that answers every request with the given status: the user and sentence lists
  as bodies of the two list endpoints, the given body for create and delete.
\<close>

definition sampleServer :: "nat \<Rightarrow> string option json \<Rightarrow> server" where
  "sampleServer status body =
     \<lparr>usersEndpoint = (\<lambda>log. Response 200 (Json [''amy'', ''bob''])),
      sentencesEndpoint = (\<lambda>log. Response 200 (Json sampleSentences)),
      createEndpoint = (\<lambda>log. Response status body),
      deleteEndpoint = (\<lambda>log. Response status body)\<rparr>"

definition sampleApp :: app where
  "sampleApp = construct sampleDom"

definition emptyForm :: app where
  "emptyForm = construct (sampleDom\<lparr>sentenceInput_value := ''  ''\<rparr>)"

text \<open>The first load comes back: the users, then the sentences.\<close>

definition sampleLoad :: "event list" where
  "sampleLoad =
     [Arrive 0 (Users (Response 200 (Json [''amy'', ''bob'']))),
      Arrive 0 (Sentences (Response 200 (Json sampleSentences)))]"

text \<open>After it, a change of the category filter whose request fails with a status 500.\<close>

definition failedReload :: "event list" where
  "failedReload =
     sampleLoad @
     [ChangeCategoryFilter ''jokes'',
      Arrive 0 (Sentences (Response 500 (SyntaxError ''Unexpected token < in JSON at position 0'')))]"

text \<open>
  Typing \<open>a\<close>, then \<open>b\<close> a tenth of a second later, then nothing for 300 milliseconds,
  and the state this leads to.
\<close>

definition sampleTyping :: "event list" where
  "sampleTyping = [InputSearch ''a'', Elapse 100, InputSearch ''ab'', Elapse 300]"

definition sampleRun :: live where
  "sampleRun = run sampleDom sampleTyping"

text \<open>Three inputs in the search field within 20 milliseconds.\<close>

definition rapidTyping :: "event list" where
  "rapidTyping =
     [InputSearch ''a'', Elapse 10, InputSearch ''ab'', Elapse 10, InputSearch ''abc'']"

text \<open>
  The first load brings the sentence of the other author, with \<open>bob\<close> in the name field.
\<close>

definition foreignLoad :: "event list" where
  "foreignLoad =
     [Arrive 0 (Users (Response 200 (Json [''amy'', ''bob'']))),
      Arrive 0 (Sentences (Response 200 (Json [foreignSentence])))]"

section \<open>Invariants\<close>

text \<open>
  What \<open>renderSentences\<close> shows for a list of sentences and the name \<open>u\<close> in the name
  field: the empty-state entry for the empty list, and otherwise one entry per sentence,
  in the order of the list.
\<close>

definition listView :: "string \<Rightarrow> sentence list \<Rightarrow> li list" where
  "listView u xs = (if xs = [] then [EmptyState] else map (renderItem u) xs)"

text \<open>
  What the list shows after a given last response: the entries of the served page while
  there has been none, the error entry after a failure, the view of the array after an
  array.
\<close>

definition outcomeView :: "dom \<Rightarrow> outcome \<Rightarrow> li list" where
  "outcomeView d out =
     (case out of
        NotYet \<Rightarrow> sentencesList_children d
      | Failed \<Rightarrow> [LoadError]
      | Arrived u xs \<Rightarrow> listView u xs)"

text \<open>
  The two parts of the controller that the invariants are about: the fetched array with
  the rendered list, and the timer of the search field with the clock.
\<close>

definition listOf :: "app \<Rightarrow> sentence list \<times> li list" where
  "listOf s = (allSentences s, sentencesList_children s)"

definition timerOf :: "app \<Rightarrow> nat option \<times> (nat \<times> nat) list \<times> nat \<times> nat" where
  "timerOf s = (searchTimeout s, timers s, nextTimer s, clock s)"

text \<open>
  The debounce invariant, for a state reached with \<open>q\<close> the time since the last input in
  the search field: no timer is pending, or exactly one is, it is the one whose handle
  \<open>searchTimeout\<close> holds, and it is due 300 milliseconds after that last input.
\<close>

definition debounce :: "nat option \<Rightarrow> app \<Rightarrow> bool" where
  "debounce q s =
     (timers s = [] \<or>
      (\<exists>h t k. timers s = [(h, t)] \<and> searchTimeout s = Some h \<and> h < nextTimer s \<and>
         q = Some k \<and> t + k = clock s + 300))"

text \<open>\<open>contains p s\<close>: the string \<open>p\<close> occurs in \<open>s\<close>.\<close>

fun contains :: "string \<Rightarrow> string \<Rightarrow> bool" where
  "contains p [] = (p = [])"
| "contains p (c # cs) = (take (length p) (c # cs) = p \<or> contains p cs)"

section \<open>The query string can be read back\<close>

lemma upt16: "[0..<16] = [0,1,2,3,4,5,6,7,8,9,10,11,12,13,14,15::nat]"
  by (simp add: upt_rec)

lemma hexval_hexdigit: "k < 16 \<Longrightarrow> hexval (hexdigit k) = Some k"
proof -
  have "list_all (\<lambda>k. hexval (hexdigit k) = Some k) [0..<16]"
    by (simp add: upt16 hexdigit_def hexval_def)
  then show "k < 16 \<Longrightarrow> hexval (hexdigit k) = Some k"
    by (simp add: list_all_iff)
qed

lemma hexdigit_plain: "k < 16 \<Longrightarrow> hexdigit k \<notin> {CHR ''&'', CHR ''='', CHR ''?''}"
proof -
  have "list_all (\<lambda>k. hexdigit k \<notin> {CHR ''&'', CHR ''='', CHR ''?''}) [0..<16]"
    by (simp add: upt16 hexdigit_def)
  then show "k < 16 \<Longrightarrow> hexdigit k \<notin> {CHR ''&'', CHR ''='', CHR ''?''}"
    by (simp add: list_all_iff)
qed

lemma of_char_bound: "(of_char c :: nat) div 16 < 16"
  using nat_of_char_less_256 [of c] by (simp add: div_less_iff_less_mult)

lemma unreserved_plain: "unreserved c \<Longrightarrow> c \<notin> {CHR ''+'', CHR ''%'', CHR ''&'', CHR ''='', CHR ''?''}"
  by (auto simp: unreserved_def)

lemma urldecode_encodeByte: "urldecode (encodeByte c @ t) = c # urldecode t"
proof (cases "c = CHR '' ''")
  case True
  then show ?thesis by (simp add: encodeByte_def)
next
  case sp: False
  show ?thesis
  proof (cases "unreserved c")
    case True
    with sp unreserved_plain [OF True] show ?thesis by (simp add: encodeByte_def)
  next
    case False
    with sp show ?thesis
      by (simp add: encodeByte_def hexval_hexdigit of_char_bound)
  qed
qed

lemma urldecode_urlencode: "urldecode (urlencode s) = s"
  by (induction s) (simp_all add: urlencode_def urldecode_encodeByte)

lemma encodeByte_plain: "x \<in> set (encodeByte c) \<Longrightarrow> x \<notin> {CHR ''&'', CHR ''='', CHR ''?''}"
proof (cases "c = CHR '' ''")
  case True
  assume "x \<in> set (encodeByte c)"
  with True show ?thesis by (simp add: encodeByte_def)
next
  case sp: False
  assume x: "x \<in> set (encodeByte c)"
  show ?thesis
  proof (cases "unreserved c")
    case True
    with sp x unreserved_plain [OF True] show ?thesis by (simp add: encodeByte_def)
  next
    case False
    have "hexdigit (of_char c div 16) \<notin> {CHR ''&'', CHR ''='', CHR ''?''}"
      by (rule hexdigit_plain) (rule of_char_bound)
    moreover have "hexdigit (of_char c mod 16) \<notin> {CHR ''&'', CHR ''='', CHR ''?''}"
      by (rule hexdigit_plain) simp
    ultimately show ?thesis using sp x False by (auto simp: encodeByte_def)
  qed
qed

lemma urlencode_plain: "x \<in> set (urlencode s) \<Longrightarrow> x \<notin> {CHR ''&'', CHR ''='', CHR ''?''}"
  unfolding urlencode_def using encodeByte_plain by auto


lemma splitOn_plain: "d \<notin> set p \<Longrightarrow> splitOn d p = [p]"
  by (induction p) auto

lemma splitOn_append: "d \<notin> set p \<Longrightarrow> splitOn d (p @ d # r) = p # splitOn d r"
  by (induction p) auto

lemma splitOn_join:
  "ps \<noteq> [] \<Longrightarrow> \<forall>p \<in> set ps. d \<notin> set p \<Longrightarrow> splitOn d (join [d] ps) = ps"
proof (induction "[d]" ps rule: join.induct)
  case 1
  then show ?case by simp
next
  case (2 x)
  then show ?case by (simp add: splitOn_plain)
next
  case (3 x y ys)
  then show ?case by (simp add: splitOn_append)
qed

lemma encodePair_plain: "CHR ''&'' \<notin> set (encodePair p)"
  using urlencode_plain [of "CHR ''&''"] by (auto simp: encodePair_def)

lemma encodePair_nonempty: "encodePair p \<noteq> []"
  by (simp add: encodePair_def)

lemma takeWhile_stop: "d \<notin> set p \<Longrightarrow> takeWhile (\<lambda>c. c \<noteq> d) (p @ d # r) = p"
  by (induction p) auto

lemma dropWhile_stop: "d \<notin> set p \<Longrightarrow> dropWhile (\<lambda>c. c \<noteq> d) (p @ d # r) = d # r"
  by (induction p) auto

lemma parsePair_encodePair: "parsePair (encodePair (k, v)) = (k, v)"
proof -
  have k: "CHR ''='' \<notin> set (urlencode k)"
    using urlencode_plain [of "CHR ''=''" k] by auto
  show ?thesis
    by (simp add: parsePair_def encodePair_def urldecode_urlencode
        takeWhile_stop [OF k] dropWhile_stop [OF k])
qed

lemma parseQuery_toString: "parseQuery (toString ps) = ps"
proof (cases "ps = []")
  case True
  then show ?thesis by (simp add: parseQuery_def toString_def)
next
  case False
  then have "splitOn (CHR ''&'') (join ''&'' (map encodePair ps)) = map encodePair ps"
    by (intro splitOn_join) (auto simp: encodePair_plain)
  moreover have "filter (\<lambda>p. p \<noteq> []) (map encodePair ps) = map encodePair ps"
    by (simp add: filter_id_conv encodePair_nonempty)
  moreover have "map parsePair (map encodePair ps) = ps"
    by (induction ps) (auto simp: parsePair_encodePair)
  ultimately show ?thesis by (simp add: parseQuery_def toString_def)
qed

lemma queryOf_sentencesUrl: "queryOf (sentencesUrl f) = toString (URLSearchParams f)"
  by (simp add: queryOf_def sentencesUrl_def)

lemma sentencesUrl_example:
  "sentencesUrl \<lparr>category = ''jokes'', user = ''all'', sortBy = ''newest'', search = []\<rparr> =
     ''/api/sentences?category=jokes&user=all&sortBy=newest&search=''"
  by code_simp

section \<open>The effects of the loading operations\<close>

lemma requests_simps:
  "requests [] = []"
  "requests (Fetch r # es) = r # requests es"
  "requests (Alert m # es) = requests es"
  "requests (Confirm m # es) = requests es"
  "requests (Navigate u # es) = requests es"
  "requests (ConsoleError l m # es) = requests es"
  "requests (es @ es') = requests es @ requests es'"
  by (simp_all add: requests_def)

lemma alerts_simps:
  "alerts [] = []"
  "alerts (Fetch r # es) = alerts es"
  "alerts (Alert m # es) = m # alerts es"
  "alerts (Confirm m # es) = alerts es"
  "alerts (Navigate u # es) = alerts es"
  "alerts (ConsoleError l m # es) = alerts es"
  "alerts (es @ es') = alerts es @ alerts es'"
  by (simp_all add: alerts_def)

lemma effects_render:
  "effects (renderSentences s) = effects s"
  "effects (renderActiveFiltersText s) = effects s"
  by (simp_all add: renderSentences_def renderActiveFiltersText_def Let_def split: option.split)

lemma effects_loadUsers:
  "\<exists>es. effects (loadUsersForFilter srv s) = effects s @ Fetch usersRequest # es \<and> requests es = []"
  by (simp add: loadUsersForFilter_def Let_def emit_def usersRequest_def requests_simps
      split: response.split json.split)

lemma effects_fetchAndRender:
  "\<exists>es. effects (fetchAndRenderSentences srv s) = effects s @ Fetch (sentencesRequest s) # es \<and> requests es = []"
  by (simp add: fetchAndRenderSentences_def Let_def emit_def sentencesRequest_def requests_simps
      effects_render split: response.split json.split)

lemma filters_loadUsers: "currentFilters (loadUsersForFilter srv s) = currentFilters s"
  by (simp add: loadUsersForFilter_def Let_def emit_def split: response.split json.split)

lemma sentencesRequest_loadUsers: "sentencesRequest (loadUsersForFilter srv s) = sentencesRequest s"
  by (simp add: sentencesRequest_def filters_loadUsers)

lemma effects_loadInitialData:
  "\<exists>es. effects (loadInitialData srv s) = effects s @ es \<and>
     requests es = [usersRequest, sentencesRequest s]"
proof -
  obtain es1 where 1: "effects (loadUsersForFilter srv s) = effects s @ Fetch usersRequest # es1"
    "requests es1 = []" using effects_loadUsers by blast
  obtain es2 where 2: "effects (fetchAndRenderSentences srv (loadUsersForFilter srv s)) =
      effects (loadUsersForFilter srv s) @ Fetch (sentencesRequest (loadUsersForFilter srv s)) # es2"
    "requests es2 = []" using effects_fetchAndRender by blast
  show ?thesis
    using 1 2 by (simp add: loadInitialData_def requests_simps sentencesRequest_loadUsers)
qed

section \<open>The effects of create and delete\<close>

lemma effects_addSentenceTry_ok:
  assumes "createEndpoint srv (effects s @ [Fetch (POST ''/api/sentences'' b)]) = Response status body"
    and "ok status"
  shows "\<exists>es. effects (addSentenceTry srv b s) = effects s @ Fetch (POST ''/api/sentences'' b) # es \<and>
     requests es = [usersRequest, sentencesRequest s]"
proof -
  let ?s1 = "(emit (Fetch (POST ''/api/sentences'' b)) s)
               \<lparr>sentenceInput_value := [], categorySelect_value := ''thoughts''\<rparr>"
  obtain es where es: "effects (loadInitialData srv ?s1) = effects ?s1 @ es"
    "requests es = [usersRequest, sentencesRequest ?s1]"
    using effects_loadInitialData by blast
  have "sentencesRequest ?s1 = sentencesRequest s"
    by (simp add: sentencesRequest_def emit_def)
  with es assms show ?thesis
    by (simp add: addSentenceTry_def Let_def emit_def)
qed

lemma addSentence_valid:
  "trim (sentenceInput_value s) \<noteq> [] \<Longrightarrow> trim (nameInput_value s) \<noteq> [] \<Longrightarrow>
   effects (addSentence srv s) =
     effects (addSentenceTry srv
       \<lparr>body_text = trim (sentenceInput_value s), body_name = trim (nameInput_value s),
        body_category = categorySelect_value s\<rparr>
       (s\<lparr>addSentenceBtn_textContent := ''Adding...'', addSentenceBtn_disabled := True\<rparr>))"
  by (simp add: addSentence_def Let_def)

lemma effects_addSentence_ok:
  assumes "trim (sentenceInput_value s) \<noteq> []" and "trim (nameInput_value s) \<noteq> []"
    and "createReply srv s = Response status body" and "ok status"
  shows "requests (since s (addSentence srv s)) =
     [createRequest s, usersRequest, sentencesRequest s]"
proof -
  let ?b = "\<lparr>body_text = trim (sentenceInput_value s), body_name = trim (nameInput_value s),
        body_category = categorySelect_value s\<rparr>"
  let ?t = "s\<lparr>addSentenceBtn_textContent := ''Adding...'', addSentenceBtn_disabled := True\<rparr>"
  from assms(3) have "createEndpoint srv (effects ?t @ [Fetch (POST ''/api/sentences'' ?b)]) =
      Response status body"
    by (simp add: createReply_def createRequest_def)
  from effects_addSentenceTry_ok [OF this assms(4)]
  obtain es where "effects (addSentenceTry srv ?b ?t) = effects ?t @ Fetch (POST ''/api/sentences'' ?b) # es"
    "requests es = [usersRequest, sentencesRequest ?t]" by blast
  moreover have "sentencesRequest ?t = sentencesRequest s"
    by (simp add: sentencesRequest_def)
  ultimately show ?thesis
    using assms(1,2) by (simp add: addSentence_valid since_def requests_simps createRequest_def)
qed

lemma effects_deleteSentence_ok:
  assumes "deleteReply srv sid s = Response status body" and "ok status"
  shows "requests (since s (deleteSentence srv sid True s)) =
     [deleteRequest sid, usersRequest, sentencesRequest s]"
proof -
  let ?s1 = "emit (Fetch (deleteRequest sid)) (emit (Confirm confirmText) s)"
  obtain es where es: "effects (loadInitialData srv ?s1) = effects ?s1 @ es"
    "requests es = [usersRequest, sentencesRequest ?s1]"
    using effects_loadInitialData by blast
  have "sentencesRequest ?s1 = sentencesRequest s"
    by (simp add: sentencesRequest_def emit_def)
  with es assms show ?thesis
    by (simp add: deleteSentence_def Let_def emit_def since_def requests_simps
        deleteReply_def deleteRequest_def confirmText_def)
qed

section \<open>The pieces make up the operations\<close>

lemma loadUsersForFilter_pieces:
  "loadUsersForFilter srv s =
     loadUsersForFilter_resume (usersEndpoint srv (effects (loadUsersForFilter_call s)))
       (loadUsersForFilter_call s)"
  by (simp add: loadUsersForFilter_def loadUsersForFilter_resume_def loadUsersForFilter_call_def
      Let_def)

lemma fetchAndRenderSentences_pieces:
  "fetchAndRenderSentences srv s =
     fetchAndRenderSentences_resume (sentencesEndpoint srv (effects (fetchAndRenderSentences_call s)))
       (fetchAndRenderSentences_call s)"
  by (simp add: fetchAndRenderSentences_def fetchAndRenderSentences_resume_def
      fetchAndRenderSentences_call_def Let_def)

lemma answer_none: "answer srv (s, []) = (s, [])"
  by (simp add: answer_def)

lemma answer_users:
  "answer srv (loadUsersForFilter_call s, [AwaitUsers k]) =
     (fetchAndRenderSentences_call (loadUsersForFilter srv s), [AwaitSentences k])"
  by (simp add: answer_def arrive_def fetchAndRenderSentences_start_def
      loadUsersForFilter_pieces [symmetric])

lemma answer_sentences:
  "answer srv (fetchAndRenderSentences_call s, [AwaitSentences k]) =
     (finish k (fetchAndRenderSentences srv s), [])"
  by (simp add: answer_def arrive_def fetchAndRenderSentences_pieces [symmetric])

lemma loadInitialData_answer:
  "answer srv (answer srv (loadInitialData_call k (s, []))) = (finish k (loadInitialData srv s), [])"
  by (simp add: loadInitialData_call_def answer_users answer_sentences loadInitialData_def)

lemma finish_Nothing: "finish Nothing s = s"
  by (simp add: finish_def)

lemma addSentence_answer:
  "answer srv (answer srv (answer srv (addSentence_call (s, [])))) = (addSentence srv s, [])"
proof (cases "trim (sentenceInput_value s) = [] \<or> trim (nameInput_value s) = []")
  case True
  then show ?thesis
    by (auto simp: addSentence_call_def addSentence_def Let_def answer_none)
next
  case False
  let ?b = "\<lparr>body_text = trim (sentenceInput_value s), body_name = trim (nameInput_value s),
        body_category = categorySelect_value s\<rparr>"
  let ?t = "s\<lparr>addSentenceBtn_textContent := ''Adding...'', addSentenceBtn_disabled := True\<rparr>"
  let ?s1 = "emit (Fetch (POST ''/api/sentences'' ?b)) ?t"
  from False have c: "addSentence_call (s, []) = (?s1, [AwaitCreate])"
    by (simp add: addSentence_call_def Let_def)
  from False have a: "addSentence srv s =
      (addSentenceTry srv ?b ?t)\<lparr>addSentenceBtn_textContent := ''Add'', addSentenceBtn_disabled := False\<rparr>"
    by (simp add: addSentence_def Let_def)
  have r: "answer srv (?s1, [AwaitCreate]) = addSentence_resume (createEndpoint srv (effects ?s1)) (?s1, [])"
    by (simp add: answer_def arrive_def)
  show ?thesis
  proof (cases "createEndpoint srv (effects ?s1)")
    case (Rejected m)
    then show ?thesis
      by (simp add: c a r addSentence_resume_def addSentenceTry_def Let_def answer_none finish_def)
  next
    case (Response status body)
    show ?thesis
    proof (cases "ok status")
      case True
      with Response show ?thesis
        by (simp add: c a r addSentence_resume_def addSentenceTry_def Let_def
            loadInitialData_answer finish_def)
    next
      case False
      with Response show ?thesis
        by (simp add: c a r addSentence_resume_def addSentenceTry_def Let_def answer_none
            finish_def split: json.split option.split)
    qed
  qed
qed

lemma deleteSentence_answer:
  "answer srv (answer srv (answer srv (deleteSentence_call sid c (s, [])))) =
     (deleteSentence srv sid c s, [])"
proof (cases c)
  case False
  then show ?thesis
    by (simp add: deleteSentence_call_def deleteSentence_def Let_def answer_none)
next
  case True
  let ?s1 = "emit (Fetch (DELETE (''/api/sentences/'' @ sid)))
      (emit (Confirm ''Are you sure you want to delete this message? This action is permanent.'') s)"
  show ?thesis
  proof (cases "deleteEndpoint srv (effects ?s1)")
    case (Rejected m)
    with True show ?thesis
      by (simp add: deleteSentence_call_def answer_def [of _ "(_, [AwaitDelete])"] arrive_def
          deleteSentence_resume_def deleteSentence_def Let_def answer_none)
  next
    case (Response status body)
    show ?thesis
    proof (cases "ok status")
      case ok: True
      with True Response show ?thesis
        by (simp add: deleteSentence_call_def answer_def [of _ "(_, [AwaitDelete])"] arrive_def
            deleteSentence_resume_def deleteSentence_def Let_def loadInitialData_answer finish_def)
    next
      case False
      with True Response show ?thesis
        by (simp add: deleteSentence_call_def answer_def [of _ "(_, [AwaitDelete])"] arrive_def
            deleteSentence_resume_def deleteSentence_def Let_def answer_none
            split: json.split option.split)
    qed
  qed
qed

section \<open>What the pieces leave as it is\<close>

lemma keep_emit: "listOf (emit e s) = listOf s" "timerOf (emit e s) = timerOf s"
  by (simp_all add: listOf_def timerOf_def emit_def)

lemma keep_finish: "listOf (finish k s) = listOf s" "timerOf (finish k s) = timerOf s"
  by (simp_all add: listOf_def timerOf_def finish_def split: after.split)

lemma keep_loadUsers_call:
  "listOf (loadUsersForFilter_call s) = listOf s" "timerOf (loadUsersForFilter_call s) = timerOf s"
  by (simp_all add: loadUsersForFilter_call_def keep_emit)

lemma keep_loadUsers_resume:
  "listOf (loadUsersForFilter_resume r s) = listOf s"
  "timerOf (loadUsersForFilter_resume r s) = timerOf s"
  by (simp_all add: listOf_def timerOf_def loadUsersForFilter_resume_def Let_def emit_def
      split: response.split json.split)

lemma keep_fetch_call:
  "listOf (fetchAndRenderSentences_call s) = listOf s"
  "timerOf (fetchAndRenderSentences_call s) = timerOf s"
  by (simp_all add: fetchAndRenderSentences_call_def Let_def keep_emit)

lemma timer_render:
  "timerOf (renderSentences s) = timerOf s" "timerOf (renderActiveFiltersText s) = timerOf s"
  by (simp_all add: timerOf_def renderSentences_def renderActiveFiltersText_def Let_def
      split: option.split)

lemma timer_fetch_resume: "timerOf (fetchAndRenderSentences_resume r s) = timerOf s"
  by (simp add: fetchAndRenderSentences_resume_def Let_def timer_render
      timerOf_def [of "_\<lparr>sentencesList_children := _\<rparr>"] timerOf_def [of "emit _ _"]
      timerOf_def [of "_\<lparr>allSentences := _\<rparr>"] timerOf_def [of s] emit_def
      split: response.split json.split)

lemma keep_fetch_start:
  "listOf (fst (fetchAndRenderSentences_start k l)) = listOf (fst l)"
  "timerOf (fst (fetchAndRenderSentences_start k l)) = timerOf (fst l)"
  by (simp_all add: fetchAndRenderSentences_start_def keep_fetch_call)

lemma keep_loadInitialData_call:
  "listOf (fst (loadInitialData_call k l)) = listOf (fst l)"
  "timerOf (fst (loadInitialData_call k l)) = timerOf (fst l)"
  by (simp_all add: loadInitialData_call_def keep_loadUsers_call)

lemma keep_update:
  "listOf (s\<lparr>currentFilters := f\<rparr>) = listOf s" "timerOf (s\<lparr>currentFilters := f\<rparr>) = timerOf s"
  "listOf (s\<lparr>nameInput_value := v\<rparr>) = listOf s" "timerOf (s\<lparr>nameInput_value := v\<rparr>) = timerOf s"
  "listOf (s\<lparr>sentenceInput_value := v\<rparr>) = listOf s"
  "timerOf (s\<lparr>sentenceInput_value := v\<rparr>) = timerOf s"
  "listOf (s\<lparr>categorySelect_value := v\<rparr>) = listOf s"
  "timerOf (s\<lparr>categorySelect_value := v\<rparr>) = timerOf s"
  "listOf (s\<lparr>categoryFilter_value := v\<rparr>) = listOf s"
  "timerOf (s\<lparr>categoryFilter_value := v\<rparr>) = timerOf s"
  "listOf (s\<lparr>userFilter_value := v\<rparr>) = listOf s" "timerOf (s\<lparr>userFilter_value := v\<rparr>) = timerOf s"
  "listOf (s\<lparr>sortBy_value := v\<rparr>) = listOf s" "timerOf (s\<lparr>sortBy_value := v\<rparr>) = timerOf s"
  "listOf (s\<lparr>searchInput_value := v\<rparr>) = listOf s" "timerOf (s\<lparr>searchInput_value := v\<rparr>) = timerOf s"
  "listOf (s\<lparr>addSentenceBtn_textContent := v\<rparr>) = listOf s"
  "timerOf (s\<lparr>addSentenceBtn_textContent := v\<rparr>) = timerOf s"
  "listOf (s\<lparr>addSentenceBtn_disabled := b\<rparr>) = listOf s"
  "timerOf (s\<lparr>addSentenceBtn_disabled := b\<rparr>) = timerOf s"
  by (simp_all add: listOf_def timerOf_def)

lemma keep_handleFilterChange:
  "listOf (fst (handleFilterChange key v l)) = listOf (fst l)"
  "timerOf (fst (handleFilterChange key v l)) = timerOf (fst l)"
  by (simp_all add: handleFilterChange_def keep_fetch_start keep_update)

lemma keep_clearAllFilters:
  "listOf (fst (clearAllFilters l)) = listOf (fst l)"
  "timerOf (fst (clearAllFilters l)) = timerOf (fst l)"
  by (simp_all add: clearAllFilters_def keep_fetch_start keep_update)

lemma keep_addSentence_call:
  "listOf (fst (addSentence_call l)) = listOf (fst l)"
  "timerOf (fst (addSentence_call l)) = timerOf (fst l)"
  by (simp_all add: addSentence_call_def Let_def keep_emit keep_update)

lemma keep_addSentence_resume:
  "listOf (fst (addSentence_resume r l)) = listOf (fst l)"
  "timerOf (fst (addSentence_resume r l)) = timerOf (fst l)"
  by (simp_all add: addSentence_resume_def Let_def keep_emit keep_update keep_finish
      keep_loadInitialData_call split: response.split json.split option.split)

lemma keep_deleteSentence_call:
  "listOf (fst (deleteSentence_call sid c l)) = listOf (fst l)"
  "timerOf (fst (deleteSentence_call sid c l)) = timerOf (fst l)"
  by (simp_all add: deleteSentence_call_def Let_def keep_emit)

lemma keep_deleteSentence_resume:
  "listOf (fst (deleteSentence_resume r l)) = listOf (fst l)"
  "timerOf (fst (deleteSentence_resume r l)) = timerOf (fst l)"
  by (simp_all add: deleteSentence_resume_def Let_def keep_emit keep_loadInitialData_call
      split: response.split json.split option.split)

lemma keep_listenersRun:
  "listOf (fst (listenersRun sid n answers l)) = listOf (fst l)"
  "timerOf (fst (listenersRun sid n answers l)) = timerOf (fst l)"
  by (induction n arbitrary: answers l) (simp_all add: keep_deleteSentence_call)

lemma timer_arrive: "timerOf (fst (arrive i r l)) = timerOf (fst l)"
proof (cases "i < length (snd l)")
  case False
  then show ?thesis by (simp add: arrive_def)
next
  case True
  show ?thesis
  proof (cases "resume (snd l ! i) r (fst l, take i (snd l) @ drop (Suc i) (snd l))")
    case None
    with True show ?thesis by (simp add: arrive_def)
  next
    case (Some l')
    then have "timerOf (fst l') = timerOf (fst l)"
      by (cases "snd l ! i"; cases r)
        (auto simp: keep_fetch_start keep_loadUsers_resume keep_finish timer_fetch_resume
          keep_addSentence_resume keep_deleteSentence_resume)
    with True Some show ?thesis by (simp add: arrive_def)
  qed
qed

section \<open>The list follows the arrivals\<close>

lemma list_fetch_resume:
  "sentencesList_children (fetchAndRenderSentences_resume r s) =
     (case fetched r of None \<Rightarrow> [LoadError] | Some xs \<Rightarrow> listView (nameInput_value s) xs)"
  "allSentences (fetchAndRenderSentences_resume r s) =
     (case fetched r of None \<Rightarrow> allSentences s | Some xs \<Rightarrow> xs)"
proof -
  have a: "sentencesList_children (renderActiveFiltersText t) = sentencesList_children t"
    "allSentences (renderActiveFiltersText t) = allSentences t" for t
    by (simp_all add: renderActiveFiltersText_def Let_def split: option.split)
  have b: "sentencesList_children (renderSentences t) = listView (nameInput_value t) (allSentences t)"
    "allSentences (renderSentences t) = allSentences t" for t
    by (simp_all add: renderSentences_def Let_def listView_def)
  show "sentencesList_children (fetchAndRenderSentences_resume r s) =
     (case fetched r of None \<Rightarrow> [LoadError] | Some xs \<Rightarrow> listView (nameInput_value s) xs)"
    "allSentences (fetchAndRenderSentences_resume r s) =
     (case fetched r of None \<Rightarrow> allSentences s | Some xs \<Rightarrow> xs)"
    by (cases r rule: fetched.cases;
        simp add: fetchAndRenderSentences_resume_def Let_def emit_def a b)+
qed

lemma list_arrive_none:
  "arrival l (Arrive i r) = None \<Longrightarrow> listOf (fst (arrive i r l)) = listOf (fst l)"
proof (cases "i < length (snd l)")
  case False
  then show ?thesis by (simp add: arrive_def)
next
  case True
  assume n: "arrival l (Arrive i r) = None"
  show ?thesis
  proof (cases "resume (snd l ! i) r (fst l, take i (snd l) @ drop (Suc i) (snd l))")
    case None
    with True show ?thesis by (simp add: arrive_def)
  next
    case (Some l')
    with n True have "listOf (fst l') = listOf (fst l)"
      by (cases "snd l ! i"; cases r)
        (auto simp: keep_fetch_start keep_loadUsers_resume keep_finish
          keep_addSentence_resume keep_deleteSentence_resume)
    with True Some show ?thesis by (simp add: arrive_def)
  qed
qed

lemma list_arrive_some:
  assumes "arrival l (Arrive i r) = Some out"
  shows "sentencesList_children (fst (arrive i r l)) = outcomeView d out"
    and "allSentences (fst (arrive i r l)) =
      (case out of Arrived u xs \<Rightarrow> xs | _ \<Rightarrow> allSentences (fst l))"
proof -
  from assms obtain x k where r: "r = Sentences x" and i: "i < length (snd l)"
    and t: "snd l ! i = AwaitSentences k"
    and out: "out = (case fetched x of None \<Rightarrow> Failed | Some xs \<Rightarrow> Arrived (nameInput_value (fst l)) xs)"
    by (cases r) (auto split: if_splits task.splits)
  have a: "fst (arrive i r l) = finish k (fetchAndRenderSentences_resume x (fst l))"
    using r i t by (simp add: arrive_def)
  have f: "sentencesList_children (finish k s) = sentencesList_children s"
    "allSentences (finish k s) = allSentences s" for s
    using keep_finish(1) [of k s] by (simp_all add: listOf_def)
  show "sentencesList_children (fst (arrive i r l)) = outcomeView d out"
    by (simp add: a f list_fetch_resume out outcomeView_def split: option.split)
  show "allSentences (fst (arrive i r l)) =
      (case out of Arrived u xs \<Rightarrow> xs | _ \<Rightarrow> allSentences (fst l))"
    by (simp add: a f list_fetch_resume out split: option.split)
qed

lemma list_onSearchInput: "listOf (onSearchInput s) = listOf s"
  by (simp add: listOf_def onSearchInput_def clearTimeout_def setTimeout_def Let_def
      split: option.split)

lemma list_step_none: "arrival l e = None \<Longrightarrow> listOf (fst (step l e)) = listOf (fst l)"
proof (cases e)
  case (Arrive i r)
  assume "arrival l e = None"
  with Arrive show ?thesis by (simp add: list_arrive_none)
next
  case (Click i h answers)
  then show ?thesis
    by (simp add: keep_listenersRun split: prod.split)
next
  case (TimerFires h)
  then show ?thesis
    by (simp add: onSearchTimer_def keep_handleFilterChange listOf_def [of "_\<lparr>timers := _\<rparr>"]
        listOf_def [of "fst l"])
next
  case (Elapse n)
  then show ?thesis by (simp add: listOf_def)
qed (simp_all add: keep_update keep_addSentence_call keep_handleFilterChange keep_clearAllFilters
    list_onSearchInput)

lemma history_snoc: "history d (evs @ [e]) = watch (history d evs) e"
  by (simp add: history_def)

lemma run_snoc: "run d (evs @ [e]) = step (run d evs) e"
  by (simp add: run_def)

lemma history_run: "fst (history d evs) = run d evs"
  by (induction evs rule: rev_induct) (simp_all add: history_def run_def watch_def)

lemma history_holds:
  "sentencesList_children (fst (run d evs)) = outcomeView d (lastArrival d evs) \<and>
   allSentences (fst (run d evs)) = lastArray d evs"
proof (induction evs rule: rev_induct)
  case Nil
  have "listOf (fst (SentenceApp d)) = listOf (construct d)"
    by (simp add: SentenceApp_def init_def keep_loadInitialData_call)
  then show ?case
    by (simp add: run_def lastArrival_def lastArray_def history_def outcomeView_def listOf_def
        construct_def dom.extend_def)
next
  case (snoc e evs)
  let ?l = "run d evs"
  show ?case
  proof (cases "arrival ?l e")
    case None
    from list_step_none [OF None] snoc show ?thesis
      by (simp add: run_snoc history_snoc lastArrival_def lastArray_def watch_def history_run
          listOf_def None)
  next
    case (Some out)
    then obtain i r where e: "e = Arrive i r"
      by (cases e) auto
    with Some have "arrival ?l (Arrive i r) = Some out" by simp
    from Some list_arrive_some [OF this] snoc show ?thesis
      by (simp add: e run_snoc history_snoc lastArrival_def lastArray_def watch_def history_run
          split: outcome.split)
  qed
qed

section \<open>The timers of the search field\<close>

lemma debounce_frame: "timerOf s' = timerOf s \<Longrightarrow> debounce q s' = debounce q s"
  by (simp add: debounce_def timerOf_def)

lemma timers_onSearchInput:
  "debounce q s \<Longrightarrow> timers (onSearchInput s) = [(nextTimer s, clock s + 300)]"
  by (auto simp: debounce_def onSearchInput_def clearTimeout_def setTimeout_def Let_def
      split: option.split)

lemma onSearchInput_fields:
  "searchTimeout (onSearchInput s) = Some (nextTimer s)"
  "nextTimer (onSearchInput s) = Suc (nextTimer s)"
  "clock (onSearchInput s) = clock s"
  "effects (onSearchInput s) = effects s"
  "currentFilters (onSearchInput s) = currentFilters s"
  by (simp_all add: onSearchInput_def clearTimeout_def setTimeout_def Let_def split: option.split)

lemma due_pending:
  "debounce q s \<Longrightarrow> due s h \<Longrightarrow>
   \<exists>t k. timers s = [(h, t)] \<and> q = Some k \<and> t + k = clock s + 300 \<and> t \<le> clock s"
  by (auto simp: debounce_def due_def split: option.splits if_splits)

lemma timer_step_other:
  "\<not> searchEvent e \<Longrightarrow> timerOf (fst (step l e)) = timerOf (fst l)"
proof (cases e)
  case (Arrive i r)
  then show ?thesis by (simp add: timer_arrive)
next
  case (Click i h answers)
  then show ?thesis by (simp add: keep_listenersRun split: prod.split)
qed (simp_all add: keep_update keep_addSentence_call keep_handleFilterChange keep_clearAllFilters)

lemma timers_fire:
  "timers (fst (onSearchTimer (s\<lparr>timers := ts\<rparr>, p))) = ts"
  "searchTimeout (fst (onSearchTimer (s\<lparr>timers := ts\<rparr>, p))) = searchTimeout s"
  "nextTimer (fst (onSearchTimer (s\<lparr>timers := ts\<rparr>, p))) = nextTimer s"
  "clock (fst (onSearchTimer (s\<lparr>timers := ts\<rparr>, p))) = clock s"
  using keep_handleFilterChange(2) [of Search "searchInput_value s" "(s\<lparr>timers := ts\<rparr>, p)"]
  by (simp_all add: onSearchTimer_def timerOf_def)

lemma quietStep_other: "\<not> searchEvent e \<Longrightarrow> quietStep q e = q"
  by (cases e) simp_all

lemma debounce_step: "debounce q (fst l) \<Longrightarrow> debounce (quietStep q e) (fst (step l e))"
proof (cases "searchEvent e")
  case False
  assume a: "debounce q (fst l)"
  from False have "debounce q (fst (step l e)) = debounce q (fst l)"
    by (intro debounce_frame timer_step_other)
  with a False show ?thesis by (simp add: quietStep_other)
next
  case True
  assume a: "debounce q (fst l)"
  show ?thesis
  proof (cases e)
    case (InputSearch v)
    from a have "debounce q ((fst l)\<lparr>searchInput_value := v\<rparr>)" by (simp add: debounce_def)
    from timers_onSearchInput [OF this] show ?thesis
      using InputSearch by (simp add: debounce_def onSearchInput_fields)
  next
    case (Elapse n)
    with a show ?thesis by (auto simp: debounce_def)
  next
    case (TimerFires h)
    show ?thesis
    proof (cases "due (fst l) h")
      case due: True
      from due_pending [OF a due] have "filter (\<lambda>t. fst t \<noteq> h) (timers (fst l)) = []" by auto
      with due TimerFires show ?thesis
        by (simp add: debounce_def timers_fire)
    next
      case False
      with a TimerFires show ?thesis by simp
    qed
  qed (use True in simp_all)
qed

lemma quiet_snoc: "quiet (evs @ [e]) = quietStep (quiet evs) e"
  by (simp add: quiet_def)

lemma debounce_run: "debounce (quiet evs) (fst (run d evs))"
proof (induction evs rule: rev_induct)
  case Nil
  have "timerOf (fst (SentenceApp d)) = timerOf (construct d)"
    by (simp add: SentenceApp_def init_def keep_loadInitialData_call)
  then show ?case
    by (simp add: run_def debounce_def timerOf_def construct_def dom.extend_def)
next
  case (snoc e evs)
  then show ?case by (simp add: run_snoc quiet_snoc debounce_step)
qed

lemma effects_fire:
  "effects (fst (onSearchTimer (s, p))) =
     effects s @ [Fetch (GET (sentencesUrl ((currentFilters s)\<lparr>search := searchInput_value s\<rparr>)))]"
  by (simp add: onSearchTimer_def handleFilterChange_def fetchAndRenderSentences_start_def
      fetchAndRenderSentences_call_def Let_def emit_def)

lemma inputs_snoc: "inputs (evs @ [e]) = inputs evs + (if isInputSearch e then 1 else 0)"
  by (simp add: inputs_def)

lemma count_run:
  "list_all searchEvent evs \<Longrightarrow>
   length (requests (effects (fst (run d evs)))) + length (timers (fst (run d evs))) \<le>
     Suc (inputs evs)"
proof (induction evs rule: rev_induct)
  case Nil
  have "timers (fst (SentenceApp d)) = []"
    using keep_loadInitialData_call(2) [of Nothing "(construct d, [])"]
    by (simp add: SentenceApp_def init_def timerOf_def construct_def dom.extend_def)
  moreover have "effects (fst (SentenceApp d)) = [Fetch (GET ''/api/sentences/users'')]"
    by (simp add: SentenceApp_def init_def loadInitialData_call_def loadUsersForFilter_call_def
        emit_def construct_def dom.extend_def)
  ultimately show ?case by (simp add: run_def requests_simps inputs_def)
next
  case (snoc e evs)
  let ?l = "run d evs"
  from snoc.prems have ih: "length (requests (effects (fst ?l))) + length (timers (fst ?l)) \<le>
     Suc (inputs evs)" and e: "searchEvent e"
    using snoc.IH by simp_all
  have inv: "debounce (quiet evs) (fst ?l)" by (rule debounce_run)
  show ?case
  proof (cases e)
    case (InputSearch v)
    from inv have "debounce (quiet evs) ((fst ?l)\<lparr>searchInput_value := v\<rparr>)"
      by (simp add: debounce_def)
    from timers_onSearchInput [OF this] ih InputSearch show ?thesis
      by (simp add: run_snoc inputs_snoc onSearchInput_fields)
  next
    case (Elapse n)
    with ih show ?thesis by (simp add: run_snoc inputs_snoc)
  next
    case (TimerFires h)
    show ?thesis
    proof (cases "due (fst ?l) h")
      case True
      from due_pending [OF inv True] obtain t where t: "timers (fst ?l) = [(h, t)]" by blast
      with True TimerFires ih show ?thesis
        by (simp add: run_snoc inputs_snoc timers_fire effects_fire requests_simps)
    next
      case False
      with TimerFires ih show ?thesis by (simp add: run_snoc inputs_snoc)
    qed
  qed (use e in simp_all)
qed

section \<open>The read request\<close>

text \<open>
  Claim C1. For every state of the controller, whatever the values of its four filters,
  \<open>fetchAndRenderSentences\<close> issues exactly one request, a GET of the URL built from the
  current filters, and the query string of that URL, read back, consists of exactly the
  four keys \<open>category\<close>, \<open>user\<close>, \<open>sortBy\<close> and \<open>search\<close>, in this order, each
  with the controller's current value for it, and nothing else.
\<close>

theorem read_request_query:
  "requests (since s (fetchAndRenderSentences srv s)) = [GET (sentencesUrl (currentFilters s))] \<and>
   parseQuery (queryOf (sentencesUrl (currentFilters s))) =
     [(''category'', category (currentFilters s)), (''user'', user (currentFilters s)),
      (''sortBy'', sortBy (currentFilters s)), (''search'', search (currentFilters s))]"
proof -
  obtain es where "effects (fetchAndRenderSentences srv s) = effects s @ Fetch (sentencesRequest s) # es"
    "requests es = []" using effects_fetchAndRender by blast
  then have "requests (since s (fetchAndRenderSentences srv s)) = [sentencesRequest s]"
    by (simp add: since_def requests_simps)
  then show ?thesis
    by (simp add: sentencesRequest_def queryOf_sentencesUrl parseQuery_toString URLSearchParams_def)
qed

section \<open>Local validation\<close>

text \<open>
  Claim C2. For every pair of values of the sentence field and the name field: when one
  of them is empty after trimming, \<open>addSentence\<close> shows the alert, issues no request and
  changes nothing else (the resulting state is the given one with the alert added to the
  log of effects); when neither is, the first effect of the call is the create request
  with the trimmed text, the trimmed name and the selected category.
\<close>

theorem submit_validation:
  "(trim (sentenceInput_value s) = [] \<or> trim (nameInput_value s) = [] \<longrightarrow>
      addSentence srv s = s\<lparr>effects := effects s @ [Alert ''Your message cannot be empty.'']\<rparr> \<and>
      requests (since s (addSentence srv s)) = []) \<and>
   (trim (sentenceInput_value s) \<noteq> [] \<and> trim (nameInput_value s) \<noteq> [] \<longrightarrow>
      (\<exists>es. since s (addSentence srv s) = Fetch (createRequest s) # es))"
proof (intro conjI impI)
  assume "trim (sentenceInput_value s) = [] \<or> trim (nameInput_value s) = []"
  then show a: "addSentence srv s = s\<lparr>effects := effects s @ [Alert ''Your message cannot be empty.'']\<rparr>"
    by (auto simp: addSentence_def Let_def emit_def)
  show "requests (since s (addSentence srv s)) = []"
    by (simp add: a since_def requests_simps)
next
  assume v: "trim (sentenceInput_value s) \<noteq> [] \<and> trim (nameInput_value s) \<noteq> []"
  let ?b = "\<lparr>body_text = trim (sentenceInput_value s), body_name = trim (nameInput_value s),
        body_category = categorySelect_value s\<rparr>"
  let ?t = "s\<lparr>addSentenceBtn_textContent := ''Adding...'', addSentenceBtn_disabled := True\<rparr>"
  have "\<exists>es. effects (addSentenceTry srv ?b ?t) = effects ?t @ Fetch (POST ''/api/sentences'' ?b) # es"
    using effects_loadInitialData [of srv "(emit (Fetch (POST ''/api/sentences'' ?b)) ?t)
               \<lparr>sentenceInput_value := [], categorySelect_value := ''thoughts''\<rparr>"]
    by (auto simp: addSentenceTry_def Let_def emit_def split: response.split json.split option.split)
  then obtain es where "effects (addSentenceTry srv ?b ?t) = effects s @ Fetch (createRequest s) # es"
    by (auto simp: createRequest_def)
  with v have "since s (addSentence srv s) = Fetch (createRequest s) # es"
    by (simp add: addSentence_valid since_def)
  then show "\<exists>es. since s (addSentence srv s) = Fetch (createRequest s) # es" ..
qed

theorem submit_validation_witness:
  "trim (sentenceInput_value emptyForm) = [] \<and>
   addSentence (sampleServer 201 (Json None)) emptyForm =
     emptyForm\<lparr>effects := effects emptyForm @ [Alert ''Your message cannot be empty.'']\<rparr> \<and>
   requests (since emptyForm (addSentence (sampleServer 201 (Json None)) emptyForm)) = [] \<and>
   trim (sentenceInput_value sampleApp) \<noteq> [] \<and>
   trim (nameInput_value sampleApp) \<noteq> [] \<and>
   (\<exists>es. since sampleApp (addSentence (sampleServer 201 (Json None)) sampleApp) =
      Fetch (createRequest sampleApp) # es)"
proof -
  have e: "trim (sentenceInput_value emptyForm) = []"
    by code_simp
  have v: "trim (sentenceInput_value sampleApp) \<noteq> [] \<and> trim (nameInput_value sampleApp) \<noteq> []"
    by code_simp
  from e v
    submit_validation [where s = emptyForm and srv = "sampleServer 201 (Json None)"]
    submit_validation [where s = sampleApp and srv = "sampleServer 201 (Json None)"]
  show ?thesis by blast
qed

section \<open>The delete control\<close>

text \<open>
  For a sentence of one of the seven known categories, with an id that carries no
  markup, the only listener of its entry is the one of the delete button, and the button
  is there exactly when the author is the name in the name field.
\<close>

lemma delete_control_known:
  assumes "s_category x \<in> set (map fst categoryMap)" and "plain (s_id x)"
  shows "hooks (renderItem u x) = Some (if s_name x = u then [HookButton (s_id x)] else [])"
proof -
  from assms(1) consider "s_category x = ''thoughts''" | "s_category x = ''quotes''"
    | "s_category x = ''stories''" | "s_category x = ''jokes''" | "s_category x = ''questions''"
    | "s_category x = ''facts''" | "s_category x = ''other''"
    by (auto simp: categoryMap_def)
  then show ?thesis
    using assms(2)
    by cases
      (simp_all add: hooks_def renderItem_def plain_def plainChar_def classTokens_def)
qed

text \<open>
  Claim C3. The claim is that an entry gets a delete control if and only if the author
  of its sentence is the name in the name field. The script builds the entry from the
  category as it is (lines 229-236) and then gives a listener to every element of class
  \<open>delete-btn\<close> (line 251), so it does not keep to the claim: with \<open>bob\<close> in the name
  field, a sentence of \<open>amy\<close> whose category is \<open>delete-btn\<close> is rendered as an entry
  that has this class itself and gets the listener, although it has no delete button; a
  click on the entry, once confirmed, sends a delete request, for the id \<open>undefined\<close>.
\<close>

theorem delete_control_on_foreign_item:
  "s_name foreignSentence \<noteq> nameInput_value (fst (run sampleDom foreignLoad)) \<and>
   allSentences (fst (run sampleDom foreignLoad)) = [foreignSentence] \<and>
   hooks (sentencesList_children (fst (run sampleDom foreignLoad)) ! 0) = Some [HookItem] \<and>
   requests (since (fst (run sampleDom foreignLoad))
      (fst (step (run sampleDom foreignLoad) (Click 0 OnItem [True])))) =
     [DELETE ''/api/sentences/undefined'']"
  by code_simp

section \<open>Reloading after a create or a delete\<close>

text \<open>
  Claim C4. When the create request is answered with a 2xx status, the requests of the
  call of \<open>addSentence\<close> are the create request, then the request for the user list, then
  the request for the sentence list; and when the delete request is answered with a 2xx
  status, the requests of the call of \<open>deleteSentence\<close> are the delete request, then
  the request for the user list, then the request for the sentence list. Both lists are
  fetched again, not only the sentences.
\<close>

theorem reload_after_success:
  "(trim (sentenceInput_value s) \<noteq> [] \<and> trim (nameInput_value s) \<noteq> [] \<and>
    createReply srv s = Response status body \<and> ok status \<longrightarrow>
      requests (since s (addSentence srv s)) =
        [createRequest s, usersRequest, sentencesRequest s]) \<and>
   (deleteReply srv sid s = Response status' body' \<and> ok status' \<longrightarrow>
      requests (since s (deleteSentence srv sid True s)) =
        [deleteRequest sid, usersRequest, sentencesRequest s])"
  using effects_addSentence_ok effects_deleteSentence_ok by blast

theorem reload_after_success_witness:
  "requests (since sampleApp (addSentence (sampleServer 201 (Json None)) sampleApp)) =
     [POST ''/api/sentences''
        \<lparr>body_text = ''hi'', body_name = ''bob'', body_category = ''facts''\<rparr>,
      GET ''/api/sentences/users'',
      GET ''/api/sentences?category=all&user=all&sortBy=newest&search=''] \<and>
   requests (since sampleApp (deleteSentence (sampleServer 204 (Json None)) ''a1'' True sampleApp)) =
     [DELETE ''/api/sentences/a1'',
      GET ''/api/sentences/users'',
      GET ''/api/sentences?category=all&user=all&sortBy=newest&search='']"
proof -
  have v: "trim (sentenceInput_value sampleApp) \<noteq> [] \<and> trim (nameInput_value sampleApp) \<noteq> []"
    by code_simp
  have c: "createReply (sampleServer 201 (Json None)) sampleApp = Response 201 (Json None)"
    by (simp add: createReply_def sampleServer_def)
  have d: "deleteReply (sampleServer 204 (Json None)) ''a1'' sampleApp = Response 204 (Json None)"
    by (simp add: deleteReply_def sampleServer_def)
  have k: "ok 201" "ok 204"
    by (simp_all add: ok_def)
  have r: "createRequest sampleApp =
      POST ''/api/sentences''
        \<lparr>body_text = ''hi'', body_name = ''bob'', body_category = ''facts''\<rparr>"
    "usersRequest = GET ''/api/sentences/users''"
    "sentencesRequest sampleApp =
      GET ''/api/sentences?category=all&user=all&sortBy=newest&search=''"
    "deleteRequest ''a1'' = DELETE ''/api/sentences/a1''"
    by code_simp+
  from v c k
    reload_after_success [where s = sampleApp and srv = "sampleServer 201 (Json None)"
      and status = 201 and body = "Json None"]
  have 1: "requests (since sampleApp (addSentence (sampleServer 201 (Json None)) sampleApp)) =
      [createRequest sampleApp, usersRequest, sentencesRequest sampleApp]"
    by blast
  from d k
    reload_after_success [where s = sampleApp and srv = "sampleServer 204 (Json None)"
      and sid = "''a1''" and status' = 204 and body' = "Json None"]
  have 2: "requests (since sampleApp
        (deleteSentence (sampleServer 204 (Json None)) ''a1'' True sampleApp)) =
      [deleteRequest ''a1'', usersRequest, sentencesRequest sampleApp]"
    by blast
  from 1 2 show ?thesis by (simp add: r)
qed

section \<open>The rendered list\<close>

text \<open>
  Claim C5, as the script implements it. An event changes the fetched array and the
  rendered list only when it is the arrival of a response to a request for the list: a
  response with a 2xx status and a body that parses makes its array the fetched array and
  the rendered list the view of that array (one entry per element, in the same order,
  none added, removed or reordered, and the single empty-state entry for the empty
  array); any other response leaves the fetched array and makes the rendered list the
  single error entry. So in every state the page can be seen in, from the construction on
  and with any number of requests under way, the rendered list is what the last response
  to arrive made it (the entries of the served page while none has arrived), and the
  fetched array is the array of the last response that brought one. The client filters and
  sorts nothing.

  The claim as stated, that the rendered list is the last successfully fetched array in
  every reachable state, does not hold: after a response that fails, the list is the error
  entry while the last successfully fetched array is still the one before.
\<close>

theorem rendered_list_follows_arrivals:
  "(case arrival l e of
      Some (Arrived u xs) \<Rightarrow>
        allSentences (fst (step l e)) = xs \<and>
        sentencesList_children (fst (step l e)) = listView u xs
    | Some Failed \<Rightarrow>
        allSentences (fst (step l e)) = allSentences (fst l) \<and>
        sentencesList_children (fst (step l e)) = [LoadError]
    | _ \<Rightarrow>
        allSentences (fst (step l e)) = allSentences (fst l) \<and>
        sentencesList_children (fst (step l e)) = sentencesList_children (fst l)) \<and>
   sentencesList_children (fst (run d evs)) = outcomeView d (lastArrival d evs) \<and>
   allSentences (fst (run d evs)) = lastArray d evs"
proof -
  have "case arrival l e of
      Some (Arrived u xs) \<Rightarrow>
        allSentences (fst (step l e)) = xs \<and>
        sentencesList_children (fst (step l e)) = listView u xs
    | Some Failed \<Rightarrow>
        allSentences (fst (step l e)) = allSentences (fst l) \<and>
        sentencesList_children (fst (step l e)) = [LoadError]
    | _ \<Rightarrow>
        allSentences (fst (step l e)) = allSentences (fst l) \<and>
        sentencesList_children (fst (step l e)) = sentencesList_children (fst l)"
  proof (cases "arrival l e")
    case None
    from list_step_none [OF None] show ?thesis
      by (simp add: None listOf_def)
  next
    case (Some out)
    then obtain i r where e: "e = Arrive i r"
      by (cases e) auto
    with Some have a: "arrival l (Arrive i r) = Some out" by simp
    from a have "out \<noteq> NotYet"
      by (cases r) (auto split: if_splits task.splits option.splits)
    with list_arrive_some(1) [OF a, of d] list_arrive_some(2) [OF a] show ?thesis
      unfolding e by (cases out) (simp_all add: a outcomeView_def)
  qed
  with history_holds [of d evs] show ?thesis by simp
qed

text \<open>
  The first load comes back, the category filter is changed, and the request that this
  starts fails: the last successfully fetched array has two sentences, and the rendered
  list is the error entry.
\<close>

theorem rendered_list_counterexample:
  "lastArray sampleDom failedReload = sampleSentences \<and>
   allSentences (fst (run sampleDom failedReload)) = sampleSentences \<and>
   sentencesList_children (fst (run sampleDom failedReload)) = [LoadError]"
  by code_simp

section \<open>Unauthorised create and delete\<close>

text \<open>
  Claim C6. When the create request is answered with status 401, the effects of the
  call of \<open>addSentence\<close> are exactly the request, the alert and the navigation to
  \<open>/auth/login\<close>; when the delete request is answered with status 401, the effects of the
  call of \<open>deleteSentence\<close> are exactly the confirmation dialog, the request, the alert
  and the navigation to \<open>/auth/login\<close>. No further request is issued, in particular no
  reload of the data.
\<close>

theorem unauthorized_redirects:
  "(trim (sentenceInput_value s) \<noteq> [] \<and> trim (nameInput_value s) \<noteq> [] \<and>
    createReply srv s = Response 401 body \<longrightarrow>
      since s (addSentence srv s) =
        [Fetch (createRequest s),
         Alert ''You must be logged in to post a message. Redirecting to login.'',
         Navigate ''/auth/login'']) \<and>
   (deleteReply srv sid s = Response 401 body' \<longrightarrow>
      since s (deleteSentence srv sid True s) =
        [Confirm confirmText, Fetch (deleteRequest sid),
         Alert ''You must be logged in to delete a message. Redirecting to login.'',
         Navigate ''/auth/login''])"
proof (intro conjI impI)
  assume a: "trim (sentenceInput_value s) \<noteq> [] \<and> trim (nameInput_value s) \<noteq> [] \<and>
    createReply srv s = Response 401 body"
  then have "createEndpoint srv (effects s @ [Fetch (createRequest s)]) = Response 401 body"
    by (simp add: createReply_def)
  with a show "since s (addSentence srv s) =
        [Fetch (createRequest s),
         Alert ''You must be logged in to post a message. Redirecting to login.'',
         Navigate ''/auth/login'']"
    by (simp add: addSentence_valid addSentenceTry_def since_def Let_def emit_def ok_def
        createRequest_def)
next
  assume "deleteReply srv sid s = Response 401 body'"
  then show "since s (deleteSentence srv sid True s) =
        [Confirm confirmText, Fetch (deleteRequest sid),
         Alert ''You must be logged in to delete a message. Redirecting to login.'',
         Navigate ''/auth/login'']"
    by (simp add: deleteSentence_def deleteReply_def since_def Let_def emit_def ok_def
        deleteRequest_def confirmText_def)
qed

theorem unauthorized_redirects_witness:
  "since sampleApp (addSentence (sampleServer 401 (Json None)) sampleApp) =
     [Fetch (POST ''/api/sentences''
        \<lparr>body_text = ''hi'', body_name = ''bob'', body_category = ''facts''\<rparr>),
      Alert ''You must be logged in to post a message. Redirecting to login.'',
      Navigate ''/auth/login''] \<and>
   since sampleApp (deleteSentence (sampleServer 401 (Json None)) ''a1'' True sampleApp) =
     [Confirm ''Are you sure you want to delete this message? This action is permanent.'',
      Fetch (DELETE ''/api/sentences/a1''),
      Alert ''You must be logged in to delete a message. Redirecting to login.'',
      Navigate ''/auth/login'']"
proof -
  have v: "trim (sentenceInput_value sampleApp) \<noteq> [] \<and> trim (nameInput_value sampleApp) \<noteq> []"
    by code_simp
  have c: "createReply (sampleServer 401 (Json None)) sampleApp = Response 401 (Json None)"
    by (simp add: createReply_def sampleServer_def)
  have d: "deleteReply (sampleServer 401 (Json None)) ''a1'' sampleApp = Response 401 (Json None)"
    by (simp add: deleteReply_def sampleServer_def)
  have r: "createRequest sampleApp =
      POST ''/api/sentences''
        \<lparr>body_text = ''hi'', body_name = ''bob'', body_category = ''facts''\<rparr>"
    "deleteRequest ''a1'' = DELETE ''/api/sentences/a1''"
    "confirmText = ''Are you sure you want to delete this message? This action is permanent.''"
    by code_simp+
  from v c d
    unauthorized_redirects [where s = sampleApp and srv = "sampleServer 401 (Json None)"
      and sid = "''a1''" and body = "Json None" and body' = "Json None"]
  have "since sampleApp (addSentence (sampleServer 401 (Json None)) sampleApp) =
     [Fetch (createRequest sampleApp),
      Alert ''You must be logged in to post a message. Redirecting to login.'',
      Navigate ''/auth/login''] \<and>
   since sampleApp (deleteSentence (sampleServer 401 (Json None)) ''a1'' True sampleApp) =
     [Confirm confirmText, Fetch (deleteRequest ''a1''),
      Alert ''You must be logged in to delete a message. Redirecting to login.'',
      Navigate ''/auth/login'']"
    by blast
  then show ?thesis by (simp add: r)
qed

section \<open>The submit button\<close>

text \<open>
  Claim C7. Whenever the local validation passes, whatever the server does (a 2xx
  answer followed by the reload, a 401, another status with or without a readable body,
  or no answer at all), the call of \<open>addSentence\<close> ends with the submit button enabled and
  labelled \<open>Add\<close>.
\<close>

theorem submit_button_reenabled:
  "trim (sentenceInput_value s) \<noteq> [] \<and> trim (nameInput_value s) \<noteq> [] \<longrightarrow>
     addSentenceBtn_disabled (addSentence srv s) = False \<and>
     addSentenceBtn_textContent (addSentence srv s) = ''Add''"
  by (simp add: addSentence_def Let_def)

theorem submit_button_reenabled_witness:
  "trim (sentenceInput_value sampleApp) \<noteq> [] \<and>
   trim (nameInput_value sampleApp) \<noteq> [] \<and>
   addSentenceBtn_disabled
     (addSentence (sampleServer 500 (Json (Some ''Text too long''))) sampleApp) = False \<and>
   addSentenceBtn_textContent
     (addSentence (sampleServer 500 (Json (Some ''Text too long''))) sampleApp) = ''Add''"
proof -
  have v: "trim (sentenceInput_value sampleApp) \<noteq> [] \<and> trim (nameInput_value sampleApp) \<noteq> []"
    by code_simp
  from v
    submit_button_reenabled [where s = sampleApp
      and srv = "sampleServer 500 (Json (Some ''Text too long''))"]
  show ?thesis by blast
qed

section \<open>The alert for a rejected create request\<close>

text \<open>
  Claim C8, as the script implements it. For every answer to the create request with a
  status that is neither 2xx nor 401, the call issues no other request and shows exactly
  one alert: \<open>Error creating message: \<close> followed by the \<open>error\<close> string of the body,
  verbatim, when the body is a JSON object with a non-empty one; followed by the fixed
  text \<open>Failed to add message.\<close> when the body is a JSON object without an \<open>error\<close> or
  with an empty one; and followed by the parser's message when the body is not JSON.

  The claim as stated, for every such response, does not hold for a body that is not
  JSON: there is no error field, and the alert is not the fixed message.
\<close>

theorem create_error_alert:
  "trim (sentenceInput_value s) \<noteq> [] \<and> trim (nameInput_value s) \<noteq> [] \<and>
   createReply srv s = Response status body \<and> \<not> ok status \<and> status \<noteq> 401 \<longrightarrow>
     requests (since s (addSentence srv s)) = [createRequest s] \<and>
     alerts (since s (addSentence srv s)) =
       [''Error creating message: '' @
          (case body of
             Json (Some e) \<Rightarrow> if e = [] then ''Failed to add message.'' else e
           | Json None \<Rightarrow> ''Failed to add message.''
           | SyntaxError m \<Rightarrow> m)]"
proof (intro impI)
  assume a: "trim (sentenceInput_value s) \<noteq> [] \<and> trim (nameInput_value s) \<noteq> [] \<and>
   createReply srv s = Response status body \<and> \<not> ok status \<and> status \<noteq> 401"
  then have "createEndpoint srv (effects s @ [Fetch (createRequest s)]) = Response status body"
    by (simp add: createReply_def)
  with a show "requests (since s (addSentence srv s)) = [createRequest s] \<and>
     alerts (since s (addSentence srv s)) =
       [''Error creating message: '' @
          (case body of
             Json (Some e) \<Rightarrow> if e = [] then ''Failed to add message.'' else e
           | Json None \<Rightarrow> ''Failed to add message.''
           | SyntaxError m \<Rightarrow> m)]"
    by (simp add: addSentence_valid addSentenceTry_def since_def Let_def emit_def
        createRequest_def requests_simps alerts_simps split: json.split option.split)
qed

theorem create_error_alert_witness:
  "alerts (since sampleApp
      (addSentence (sampleServer 500 (Json (Some ''Text too long''))) sampleApp)) =
     [''Error creating message: Text too long''] \<and>
   alerts (since sampleApp (addSentence (sampleServer 500 (Json None)) sampleApp)) =
     [''Error creating message: Failed to add message.'']"
proof -
  have v: "trim (sentenceInput_value sampleApp) \<noteq> [] \<and> trim (nameInput_value sampleApp) \<noteq> []"
    by code_simp
  have k: "\<not> ok 500 \<and> (500::nat) \<noteq> 401"
    by (simp add: ok_def)
  have c: "createReply (sampleServer 500 (Json (Some ''Text too long''))) sampleApp =
      Response 500 (Json (Some ''Text too long''))"
    "createReply (sampleServer 500 (Json None)) sampleApp = Response 500 (Json None)"
    by (simp_all add: createReply_def sampleServer_def)
  from v k c(1)
    create_error_alert [where s = sampleApp
      and srv = "sampleServer 500 (Json (Some ''Text too long''))"
      and status = 500 and body = "Json (Some ''Text too long'')"]
  have 1: "alerts (since sampleApp
      (addSentence (sampleServer 500 (Json (Some ''Text too long''))) sampleApp)) =
     [''Error creating message: Text too long'']"
    by simp
  from v k c(2)
    create_error_alert [where s = sampleApp and srv = "sampleServer 500 (Json None)"
      and status = 500 and body = "Json None"]
  have 2: "alerts (since sampleApp (addSentence (sampleServer 500 (Json None)) sampleApp)) =
     [''Error creating message: Failed to add message.'']"
    by simp
  from 1 2 show ?thesis by simp
qed

text \<open>
  A status 500 whose body is an HTML page: the alert carries the parser's message, and
  the fixed message occurs nowhere in it.
\<close>

theorem create_error_alert_counterexample:
  "alerts (since sampleApp
      (addSentence
         (sampleServer 500 (SyntaxError ''Unexpected token < in JSON at position 0''))
         sampleApp)) =
     [''Error creating message: Unexpected token < in JSON at position 0''] \<and>
   \<not> contains ''Failed to add message.''
       ''Error creating message: Unexpected token < in JSON at position 0''"
  by code_simp

section \<open>The search debounce holds\<close>

text \<open>
  Claim C9. After every finite sequence of events, with the clock of the model counting
  milliseconds: at most one timer is pending. An input in the search field issues no
  request, starts no operation and leaves the filters as they are; it leaves exactly one
  timer pending, a new one, due 300 milliseconds later, so that the timer pending before
  is cancelled. A timer can fire only when at least 300 milliseconds have passed since
  the last input in the search field, and when it fires, the only effect is one request,
  for the list with the filters of that moment and the search text that the field holds
  at that moment, and no timer is pending afterwards; a timer that is not pending and due
  does nothing. And over a sequence of events of the search field alone (inputs, time
  passing, timers firing), the requests issued, not counting the one for the users that
  the construction starts with, and the timers still pending are together at most as
  many as the inputs: at most one request per input.
\<close>

theorem search_debounce:
  "l = run d evs \<Longrightarrow>
   length (timers (fst l)) \<le> 1 \<and>
   effects (fst (step l (InputSearch v))) = effects (fst l) \<and>
   snd (step l (InputSearch v)) = snd l \<and>
   currentFilters (fst (step l (InputSearch v))) = currentFilters (fst l) \<and>
   timers (fst (step l (InputSearch v))) = [(nextTimer (fst l), clock (fst l) + 300)] \<and>
   nextTimer (fst l) \<notin> set (map fst (timers (fst l))) \<and>
   (due (fst l) h \<longrightarrow>
      (\<exists>q. quiet evs = Some q \<and> 300 \<le> q) \<and>
      since (fst l) (fst (step l (TimerFires h))) =
        [Fetch (GET (sentencesUrl
           ((currentFilters (fst l))\<lparr>search := searchInput_value (fst l)\<rparr>)))] \<and>
      timers (fst (step l (TimerFires h))) = []) \<and>
   (\<not> due (fst l) h \<longrightarrow> step l (TimerFires h) = l) \<and>
   (list_all searchEvent evs \<longrightarrow>
      length (requests (effects (fst l))) + length (timers (fst l)) \<le> Suc (inputs evs))"
proof -
  assume l: "l = run d evs"
  then have inv: "debounce (quiet evs) (fst l)" by (simp add: debounce_run)
  have 1: "length (timers (fst l)) \<le> 1" using inv by (auto simp: debounce_def)
  have "debounce (quiet evs) ((fst l)\<lparr>searchInput_value := v\<rparr>)"
    using inv by (simp add: debounce_def)
  from timers_onSearchInput [OF this]
  have 2: "timers (fst (step l (InputSearch v))) = [(nextTimer (fst l), clock (fst l) + 300)]"
    by simp
  have 3: "nextTimer (fst l) \<notin> set (map fst (timers (fst l)))"
    using inv by (auto simp: debounce_def)
  have 4: "(\<exists>q. quiet evs = Some q \<and> 300 \<le> q) \<and>
      since (fst l) (fst (step l (TimerFires h))) =
        [Fetch (GET (sentencesUrl
           ((currentFilters (fst l))\<lparr>search := searchInput_value (fst l)\<rparr>)))] \<and>
      timers (fst (step l (TimerFires h))) = []" if d: "due (fst l) h"
  proof -
    from due_pending [OF inv d] obtain t k where
      p: "timers (fst l) = [(h, t)]" "quiet evs = Some k" "t + k = clock (fst l) + 300"
        "t \<le> clock (fst l)"
      by blast
    then have a: "\<exists>q. quiet evs = Some q \<and> 300 \<le> q" by simp
    have b: "since (fst l) (fst (step l (TimerFires h))) =
        [Fetch (GET (sentencesUrl
           ((currentFilters (fst l))\<lparr>search := searchInput_value (fst l)\<rparr>)))]"
      using d by (simp add: effects_fire since_def)
    have c: "timers (fst (step l (TimerFires h))) = []"
      using d p by (simp add: timers_fire)
    from a b c show ?thesis by simp
  qed
  have 5: "step l (TimerFires h) = l" if "\<not> due (fst l) h" using that by simp
  have 6: "effects (fst (step l (InputSearch v))) = effects (fst l)"
    "snd (step l (InputSearch v)) = snd l"
    "currentFilters (fst (step l (InputSearch v))) = currentFilters (fst l)"
    by (simp_all add: onSearchInput_fields)
  have 7: "length (requests (effects (fst l))) + length (timers (fst l)) \<le> Suc (inputs evs)"
    if "list_all searchEvent evs" using that l by (simp add: count_run)
  from 1 2 3 4 5 6 7 show ?thesis by blast
qed

theorem search_debounce_witness:
  "length (timers (fst sampleRun)) \<le> 1 \<and>
   effects (fst (step sampleRun (InputSearch ''abc''))) = effects (fst sampleRun) \<and>
   timers (fst (step sampleRun (InputSearch ''abc''))) = [(3, 700)] \<and>
   due (fst sampleRun) 2 \<and>
   (\<exists>q. quiet sampleTyping = Some q \<and> 300 \<le> q) \<and>
   since (fst sampleRun) (fst (step sampleRun (TimerFires 2))) =
     [Fetch (GET ''/api/sentences?category=all&user=all&sortBy=newest&search=ab'')] \<and>
   timers (fst (step sampleRun (TimerFires 2))) = [] \<and>
   \<not> due (fst sampleRun) 1 \<and>
   step sampleRun (TimerFires 1) = sampleRun \<and>
   list_all searchEvent rapidTyping \<and>
   length (requests (effects (fst (run sampleDom rapidTyping)))) +
     length (timers (fst (run sampleDom rapidTyping))) \<le> Suc (inputs rapidTyping) \<and>
   requests (effects (fst (run sampleDom rapidTyping))) = [GET ''/api/sentences/users'']"
proof -
  have r: "sampleRun = run sampleDom sampleTyping"
    by (simp add: sampleRun_def)
  have d: "due (fst sampleRun) 2" "\<not> due (fst sampleRun) 1"
    by code_simp+
  have e: "nextTimer (fst sampleRun) = 3" "clock (fst sampleRun) = 400"
    "sentencesUrl ((currentFilters (fst sampleRun))\<lparr>search := searchInput_value (fst sampleRun)\<rparr>) =
       ''/api/sentences?category=all&user=all&sortBy=newest&search=ab''"
    by code_simp+
  have s: "list_all searchEvent rapidTyping"
    "requests (effects (fst (run sampleDom rapidTyping))) = [GET ''/api/sentences/users'']"
    by code_simp+
  from d e
    search_debounce [OF r, where v = "''abc''" and h = 2]
    search_debounce [OF r, where v = "''abc''" and h = 1]
  have 1: "length (timers (fst sampleRun)) \<le> 1 \<and>
   effects (fst (step sampleRun (InputSearch ''abc''))) = effects (fst sampleRun) \<and>
   timers (fst (step sampleRun (InputSearch ''abc''))) = [(3, 700)] \<and>
   (\<exists>q. quiet sampleTyping = Some q \<and> 300 \<le> q) \<and>
   since (fst sampleRun) (fst (step sampleRun (TimerFires 2))) =
     [Fetch (GET ''/api/sentences?category=all&user=all&sortBy=newest&search=ab'')] \<and>
   timers (fst (step sampleRun (TimerFires 2))) = [] \<and>
   step sampleRun (TimerFires 1) = sampleRun"
    by simp
  from s(1) search_debounce [OF refl, where d = sampleDom and evs = rapidTyping]
  have 2: "length (requests (effects (fst (run sampleDom rapidTyping)))) +
     length (timers (fst (run sampleDom rapidTyping))) \<le> Suc (inputs rapidTyping)"
    by blast
  from 1 2 d s show ?thesis by simp
qed

section \<open>A declined delete\<close>

text \<open>
  Claim C10. For every id, when the user declines the confirmation dialog,
  \<open>deleteSentence\<close> returns at once: the resulting state is the given one with the dialog
  added to the log of effects, so that no request is issued and the filters, the cached
  sentences and users and everything rendered are unchanged.
\<close>

theorem declined_delete_is_noop:
  "deleteSentence srv sid False s = s\<lparr>effects := effects s @ [Confirm confirmText]\<rparr> \<and>
   requests (since s (deleteSentence srv sid False s)) = []"
  by (simp add: deleteSentence_def Let_def emit_def confirmText_def since_def requests_simps)

end
